theory Spec2Isabelle
  imports Complex_Main
begin

section \<open>Python strings\<close>

text \<open>
  Strings are byte lists. The helpers below are the string operations that
  \<^verbatim>\<open>app/main.py\<close> uses: \<^verbatim>\<open>s.startswith(p)\<close>, \<^verbatim>\<open>sub in s\<close>, \<^verbatim>\<open>s.split(c)\<close>,
  \<^verbatim>\<open>s.rsplit(c, 1)\<close> and \<^verbatim>\<open>s.lower()\<close>. Lower-casing acts on the ASCII letters; the
  source only compares lower-cased text with the ASCII patterns \<^verbatim>\<open>true\<close> and
  \<^verbatim>\<open>not found\<close>.
\<close>

definition startswith :: "string \<Rightarrow> string \<Rightarrow> bool" where
  "startswith s p = (take (length p) s = p)"

fun str_contains :: "string \<Rightarrow> string \<Rightarrow> bool" where
  "str_contains sub [] = (sub = [])"
| "str_contains sub (x # xs) = (startswith (x # xs) sub \<or> str_contains sub xs)"

fun str_split :: "char \<Rightarrow> string \<Rightarrow> string list" where
  "str_split c [] = [[]]"
| "str_split c (x # xs) =
     (if x = c then [] # str_split c xs
      else (case str_split c xs of
              [] \<Rightarrow> [[x]]
            | y # ys \<Rightarrow> (x # y) # ys))"

definition rsplit1 :: "char \<Rightarrow> string \<Rightarrow> string \<times> string" where
  "rsplit1 c s =
     (rev (tl (dropWhile (\<lambda>x. x \<noteq> c) (rev s))), rev (takeWhile (\<lambda>x. x \<noteq> c) (rev s)))"

definition lower_char :: "char \<Rightarrow> char" where
  "lower_char c =
     (case map_of (zip ''ABCDEFGHIJKLMNOPQRSTUVWXYZ'' ''abcdefghijklmnopqrstuvwxyz'') c of
        None \<Rightarrow> c
      | Some l \<Rightarrow> l)"

definition lower :: "string \<Rightarrow> string" where
  "lower s = map lower_char s"

section \<open>The container runtime as seen by the program\<close>

text \<open>
  Exceptions of the Docker SDK. \<^verbatim>\<open>ImageNotFound\<close> is a subclass of \<^verbatim>\<open>NotFound\<close>,
  which is a subclass of \<^verbatim>\<open>APIError\<close>; \<open>KeyError\<close> is Python's own, and
  \<open>OtherException\<close> stands for every other exception class (transport errors
  and the like), which only an \<^verbatim>\<open>except Exception\<close> handler catches. Each carries
  the text that \<^verbatim>\<open>str(e)\<close> gives.
\<close>

datatype exn =
    ImageNotFound string
  | NotFound string
  | APIError string
  | KeyError string
  | OtherException string

fun exn_str :: "exn \<Rightarrow> string" where
  "exn_str (ImageNotFound m) = m"
| "exn_str (NotFound m) = m"
| "exn_str (APIError m) = m"
| "exn_str (KeyError m) = m"
| "exn_str (OtherException m) = m"

fun is_APIError :: "exn \<Rightarrow> bool" where
  "is_APIError (ImageNotFound m) = True"
| "is_APIError (NotFound m) = True"
| "is_APIError (APIError m) = True"
| "is_APIError (KeyError m) = False"
| "is_APIError (OtherException m) = False"

text \<open>A local image: its id and the \<^verbatim>\<open>RepoDigests\<close> entry of its attributes
  (a missing or null entry is the empty list; the source treats both alike).\<close>

record image =
  img_id :: string
  repo_digests :: "string list"

text \<open>The \<^verbatim>\<open>Config\<close> and \<^verbatim>\<open>HostConfig\<close> sections of a container's inspected
  attributes. A key that is absent (or null) is \<open>None\<close>.\<close>

record config_section =
  Image :: "string option"
  Env :: "string list option"
  Cmd :: "string list option"
  Entrypoint :: "string list option"
  WorkingDir :: "string option"
  User :: "string option"
  Labels :: "(string \<times> string) list option"

record mount_spec =
  Target :: "string option"
  Source :: "string option"
  Type :: "string option"
  ReadOnly :: "bool option"

record restart_policy_spec =
  Name :: "string option"
  MaximumRetryCount :: "int option"

record host_config_section =
  PortBindings :: "(string \<times> (string \<times> string) list) list option"
  Binds :: "string list option"
  Mounts :: "mount_spec list option"
  NetworkMode :: "string option"
  RestartPolicy :: "restart_policy_spec option"
  Privileged :: "bool option"
  CapAdd :: "string list option"
  CapDrop :: "string list option"
  Memory :: "int option"
  NanoCpus :: "int option"

record container_attrs =
  Config :: "config_section option"
  HostConfig :: "host_config_section option"

text \<open>
  A container object of the SDK. Its attribute reads (\<^verbatim>\<open>container.name\<close>,
  \<^verbatim>\<open>.id\<close>, \<^verbatim>\<open>.short_id\<close>, \<^verbatim>\<open>.image.tags\<close>, \<^verbatim>\<open>.labels\<close>, \<^verbatim>\<open>.attrs\<close>) are fields of
  this snapshot; its methods \<^verbatim>\<open>stop\<close> and \<^verbatim>\<open>remove\<close> are runtime operations.
\<close>

record container =
  c_name :: string
  c_id :: string
  short_id :: string
  image_tags :: "string list"
  c_labels :: "(string \<times> string) list"
  attrs :: container_attrs

text \<open>The keyword arguments handed to \<^verbatim>\<open>client.containers.run\<close>. A key that was
  not put into the dictionary is \<open>None\<close>.\<close>

record mount =
  m_target :: string
  m_source :: string
  m_type :: string
  m_read_only :: bool

datatype volumes_arg = EmptyDict | BindList "string list"

record restart_policy_arg =
  rp_Name :: string
  rp_MaximumRetryCount :: int

record container_config =
  cc_image :: string
  cc_name :: string
  cc_detach :: bool
  cc_environment :: "string list option"
  cc_command :: "string list option"
  cc_entrypoint :: "string list option"
  cc_working_dir :: "string option"
  cc_user :: "string option"
  cc_labels :: "(string \<times> string) list option"
  cc_ports :: "(string \<times> (string \<times> string) list) list option"
  cc_volumes :: "volumes_arg option"
  cc_mounts :: "mount list option"
  cc_network_mode :: "string option"
  cc_restart_policy :: "restart_policy_arg option"
  cc_privileged :: "bool option"
  cc_cap_add :: "string list option"
  cc_cap_drop :: "string list option"
  cc_mem_limit :: "int option"
  cc_nano_cpus :: "int option"

text \<open>The report of one container and of one cycle (the two dataclasses).\<close>

record ContainerReport =
  cr_name :: string
  cr_image :: string
  cr_status :: string
  cr_message :: string

record UpdateCycleReport =
  timestamp :: string
  hostname :: string
  duration_seconds :: rat
  containers_checked :: int
  containers_updated :: int
  containers_skipped :: int
  containers_failed :: int
  images_cleaned :: int
  space_reclaimed_mb :: rat
  container_reports :: "ContainerReport list"
  errors :: "string list"

record prune_result =
  ImagesDeleted :: "string list"
  SpaceReclaimed :: int

text \<open>
  The runtime is a state \<open>'w\<close> with the operations the program calls on it. A
  read returns a value or raises; an operation that changes the runtime also
  returns the new state. \<open>pull\<close> is \<^verbatim>\<open>api_client.pull(repo, tag=tag, stream=True,
  decode=True)\<close> read to the end of its stream. \<open>webhook_post\<close> is the body of
  the \<^verbatim>\<open>try\<close> block of \<^verbatim>\<open>send_webhook\<close> (choice of format, payload, HTTP POST), whose
  every exception is caught there; it gives the boolean that block returns.
  \<open>now\<close> is \<^verbatim>\<open>datetime.now()\<close> in seconds, \<open>strftime\<close> formats such an instant
  as \<^verbatim>\<open>%Y-%m-%d %H:%M:%S\<close>, \<open>sleep\<close> is \<^verbatim>\<open>time.sleep\<close>, and \<open>shutdown_signal\<close>
  tells whether a termination signal has reached the process. \<open>environ\<close> is
  \<^verbatim>\<open>os.environ.get\<close>; \<open>croniter_valid\<close> tells whether \<^verbatim>\<open>croniter(schedule, ...)\<close>
  accepts the schedule, and \<open>croniter_next schedule t\<close> is what \<^verbatim>\<open>get_next\<close> gives for
  an iterator of that schedule standing at instant \<open>t\<close>.
\<close>

record 'w platform =
  images_get :: "'w \<Rightarrow> string \<Rightarrow> exn + image"
  pull :: "'w \<Rightarrow> string \<Rightarrow> string \<Rightarrow> exn option \<times> 'w"
  containers_list :: "'w \<Rightarrow> exn + container list"
  containers_get :: "'w \<Rightarrow> string \<Rightarrow> exn + container"
  container_stop :: "'w \<Rightarrow> container \<Rightarrow> nat \<Rightarrow> exn option \<times> 'w"
  container_remove :: "'w \<Rightarrow> container \<Rightarrow> exn option \<times> 'w"
  containers_run :: "'w \<Rightarrow> container_config \<Rightarrow> exn option \<times> 'w"
  images_prune :: "'w \<Rightarrow> bool \<Rightarrow> (exn + prune_result) \<times> 'w"
  webhook_post :: "'w \<Rightarrow> string \<Rightarrow> string \<Rightarrow> UpdateCycleReport \<Rightarrow> bool \<times> 'w"
  now :: "'w \<Rightarrow> rat"
  strftime :: "rat \<Rightarrow> string"
  sleep :: "'w \<Rightarrow> rat \<Rightarrow> 'w"
  shutdown_signal :: "'w \<Rightarrow> bool"
  environ :: "string \<Rightarrow> string option"
  croniter_valid :: "string \<Rightarrow> bool"
  croniter_next :: "string \<Rightarrow> rat \<Rightarrow> exn + rat"

section \<open>Image names, digests and the classifier\<close>

text \<open>Truth value of an \<^verbatim>\<open>Optional[str]\<close>: neither \<^verbatim>\<open>None\<close> nor empty.\<close>

fun truthy_str :: "string option \<Rightarrow> bool" where
  "truthy_str None = False"
| "truthy_str (Some s) = (s \<noteq> [])"

definition get_image_digest :: "'w platform \<Rightarrow> 'w \<Rightarrow> string \<Rightarrow> exn + string option" where
  "get_image_digest api w image_name =
     (case images_get api w image_name of
        Inr img \<Rightarrow>
          (case repo_digests img of
             d # ds \<Rightarrow> Inr (Some d)
           | [] \<Rightarrow> Inr (Some (img_id img)))
      | Inl e \<Rightarrow> (if is_APIError e then Inr None else Inl e))"

definition get_image_name :: "container \<Rightarrow> string option" where
  "get_image_name c =
     (case image_tags c of
        t # ts \<Rightarrow> Some t
      | [] \<Rightarrow>
          (let config_image =
                 (case Config (attrs c) of
                    None \<Rightarrow> []
                  | Some cf \<Rightarrow> (case Image cf of None \<Rightarrow> [] | Some i \<Rightarrow> i))
           in if config_image \<noteq> [] \<and> \<not> startswith config_image ''sha256:''
              then Some config_image else None))"

text \<open>The loop over the digests in \<^verbatim>\<open>is_local_only_image\<close>, with the
  \<^verbatim>\<open>return True\<close> that follows it: the value is what the function returns.\<close>

fun digests_loop :: "string \<Rightarrow> string list \<Rightarrow> bool" where
  "digests_loop image_name [] = True"
| "digests_loop image_name (digest # rest) =
     (let digest_repo = hd (str_split (CHR ''@'') digest) in
      if CHR ''/'' \<in> set digest_repo then
        (let first_segment = hd (str_split (CHR ''/'') digest_repo) in
         if CHR ''.'' \<in> set first_segment \<or> CHR '':'' \<in> set first_segment then False
         else digests_loop image_name rest)
      else
        (let image_base = hd (str_split (CHR '':'') image_name) in
         if digest_repo = image_base \<or> digest_repo = last (str_split (CHR ''/'') image_base)
         then False
         else digests_loop image_name rest))"

definition is_local_only_image :: "'w platform \<Rightarrow> 'w \<Rightarrow> string \<Rightarrow> exn + bool" where
  "is_local_only_image api w image_name =
     (if image_name = [] then Inr True
      else if startswith image_name ''sha256:'' then Inr True
      else
        (case images_get api w image_name of
           Inr img \<Rightarrow>
             (if repo_digests img = [] then Inr True
              else Inr (digests_loop image_name (repo_digests img)))
         | Inl e \<Rightarrow> (if is_APIError e then Inr False else Inl e)))"

section \<open>The update detector\<close>

text \<open>
  What the program does to the runtime is recorded in a trace: one event for
  each runtime operation that changes something, and one for each call of the
  detector, the recreator, the webhook sender and the self-restart.
  \<open>EvCronNext t n\<close> records that the cron iterator, standing at instant \<open>t\<close>,
  gave \<open>n\<close> as the next instant.
\<close>

datatype event =
    EvPull string string
  | EvStop container nat
  | EvRemove container
  | EvRun container_config
  | EvPrune bool
  | EvPost string string UpdateCycleReport
  | EvSleep rat
  | EvCheck container
  | EvChecked container string
  | EvRecreate container
  | EvSendWebhook UpdateCycleReport
  | EvSelfRestart
  | EvCronNext rat rat

text \<open>The mutable part of the \<^verbatim>\<open>DockerImageWatch\<close> object together with the
  runtime, and the part fixed at construction.\<close>

record 'w state =
  world :: 'w
  trace :: "event list"
  self_update_available :: bool
  self_container_image :: "string option"

record watcher =
  w_hostname :: string
  self_container_name :: "string option"
  webhook_url :: string
  webhook_format :: string
  webhook_on_update :: bool
  webhook_on_error :: bool
  webhook_always :: bool

text \<open>The repository and tag that \<^verbatim>\<open>pull_image\<close> takes from an image name.\<close>

definition repo_and_tag :: "string \<Rightarrow> string \<times> string" where
  "repo_and_tag image_name =
     (if CHR '':'' \<in> set image_name then rsplit1 (CHR '':'') image_name
      else (image_name, ''latest''))"

definition pull_image ::
  "'w platform \<Rightarrow> string \<Rightarrow> 'w state \<Rightarrow> (exn + bool \<times> bool) \<times> 'w state" where
  "pull_image api image_name s =
     (let (repo, tag) = repo_and_tag image_name;
          (r, w1) = pull api (world s) repo tag;
          s1 = s\<lparr>world := w1, trace := trace s @ [EvPull repo tag]\<rparr>
      in case r of
           None \<Rightarrow> (Inr (True, False), s1)
         | Some e \<Rightarrow>
             (if is_APIError e then
                (let error_msg = exn_str e in
                 if str_contains ''repository does not exist'' error_msg
                    \<or> str_contains ''pull access denied'' error_msg
                 then (Inr (False, True), s1)
                 else if str_contains ''not found'' (lower error_msg)
                 then (Inr (False, True), s1)
                 else (Inr (False, False), s1))
              else (Inl e, s1)))"

text \<open>The \<^verbatim>\<open>try\<close> block of \<^verbatim>\<open>check_for_update_with_status\<close>: \<open>Inl e\<close> when
  exception \<open>e\<close> leaves it.\<close>

definition check_body ::
  "'w platform \<Rightarrow> container \<Rightarrow> 'w state \<Rightarrow> (exn + string) \<times> 'w state" where
  "check_body api c s =
     (case get_image_name c of
        None \<Rightarrow> (Inr ''skipped'', s)
      | Some image_name \<Rightarrow>
          (if image_name = [] then (Inr ''skipped'', s)
           else
             (case is_local_only_image api (world s) image_name of
                Inl e \<Rightarrow> (Inl e, s)
              | Inr True \<Rightarrow> (Inr ''skipped'', s)
              | Inr False \<Rightarrow>
                  (case get_image_digest api (world s) image_name of
                     Inl e \<Rightarrow> (Inl e, s)
                   | Inr old_digest \<Rightarrow>
                       (case pull_image api image_name s of
                          (Inl e, s1) \<Rightarrow> (Inl e, s1)
                        | (Inr (pull_success, is_local_only), s1) \<Rightarrow>
                            (if \<not> pull_success then
                               (if is_local_only then (Inr ''skipped'', s1)
                                else (Inr ''error'', s1))
                             else
                               (case get_image_digest api (world s1) image_name of
                                  Inl e \<Rightarrow> (Inl e, s1)
                                | Inr new_digest \<Rightarrow>
                                    (if truthy_str old_digest \<and> truthy_str new_digest
                                        \<and> old_digest \<noteq> new_digest
                                     then (Inr ''update_available'', s1)
                                     else (Inr ''up_to_date'', s1)))))))))"

definition check_for_update_with_status ::
  "'w platform \<Rightarrow> container \<Rightarrow> 'w state \<Rightarrow> string \<times> 'w state" where
  "check_for_update_with_status api c s =
     (let (r, s1) = check_body api c (s\<lparr>trace := trace s @ [EvCheck c]\<rparr>);
          res = (case r of Inl e \<Rightarrow> ''error'' | Inr v \<Rightarrow> v)
      in (res, s1\<lparr>trace := trace s1 @ [EvChecked c res]\<rparr>))"

section \<open>The recreator\<close>

text \<open>Truth values of optional attribute values, as Python's \<^verbatim>\<open>if d.get(k):\<close>
  takes them: a missing key, an empty list or dictionary, zero and \<^verbatim>\<open>False\<close> are
  false.\<close>

fun truthy_list :: "'a list option \<Rightarrow> bool" where
  "truthy_list None = False"
| "truthy_list (Some xs) = (xs \<noteq> [])"

fun truthy_int :: "int option \<Rightarrow> bool" where
  "truthy_int None = False"
| "truthy_int (Some n) = (n \<noteq> 0)"

fun truthy_bool :: "bool option \<Rightarrow> bool" where
  "truthy_bool None = False"
| "truthy_bool (Some b) = b"

fun truthy_policy :: "restart_policy_spec option \<Rightarrow> bool" where
  "truthy_policy None = False"
| "truthy_policy (Some p) = (Name p \<noteq> None \<or> MaximumRetryCount p \<noteq> None)"

definition make_mount :: "mount_spec \<Rightarrow> exn + mount" where
  "make_mount m =
     (case Target m of
        None \<Rightarrow> Inl (KeyError ''Target'')
      | Some t \<Rightarrow>
          (case Source m of
             None \<Rightarrow> Inl (KeyError ''Source'')
           | Some so \<Rightarrow>
               (case Type m of
                  None \<Rightarrow> Inl (KeyError ''Type'')
                | Some ty \<Rightarrow>
                    Inr \<lparr>m_target = t, m_source = so, m_type = ty,
                         m_read_only = (case ReadOnly m of None \<Rightarrow> False | Some b \<Rightarrow> b)\<rparr>)))"

fun make_mounts :: "mount_spec list \<Rightarrow> exn + mount list" where
  "make_mounts [] = Inr []"
| "make_mounts (m # ms) =
     (case make_mount m of
        Inl e \<Rightarrow> Inl e
      | Inr x \<Rightarrow> (case make_mounts ms of Inl e \<Rightarrow> Inl e | Inr xs \<Rightarrow> Inr (x # xs)))"

text \<open>\<^verbatim>\<open>host_config.get(key)\<close>, where \<^verbatim>\<open>host_config = config.get('HostConfig', {})\<close>.\<close>

definition host_get :: "container \<Rightarrow> (host_config_section \<Rightarrow> 'a option) \<Rightarrow> 'a option" where
  "host_get c key = (case HostConfig (attrs c) of None \<Rightarrow> None | Some hc \<Rightarrow> key hc)"

text \<open>The part of \<^verbatim>\<open>recreate_container\<close> that builds \<^verbatim>\<open>container_config\<close>: first
  the dictionary itself, given the \<^verbatim>\<open>Config\<close> section, the image and the mounts
  already converted, then the lookups that can raise \<^verbatim>\<open>KeyError\<close>.\<close>

definition container_config_of ::
  "container \<Rightarrow> config_section \<Rightarrow> string \<Rightarrow> mount list option \<Rightarrow> container_config" where
  "container_config_of c cf image' mounts =
     \<lparr>cc_image = image',
      cc_name = c_name c,
      cc_detach = True,
      cc_environment = (if truthy_list (Env cf) then Env cf else None),
      cc_command = (if truthy_list (Cmd cf) then Cmd cf else None),
      cc_entrypoint = (if truthy_list (Entrypoint cf) then Entrypoint cf else None),
      cc_working_dir = (if truthy_str (WorkingDir cf) then WorkingDir cf else None),
      cc_user = (if truthy_str (User cf) then User cf else None),
      cc_labels = (if truthy_list (Labels cf) then Labels cf else None),
      cc_ports =
        (if truthy_list (host_get c PortBindings) then host_get c PortBindings else None),
      cc_volumes =
        (if truthy_list (host_get c Binds) then
           (let binds = filter (\<lambda>bind. length (str_split (CHR '':'') bind) \<ge> 2)
                          (the (host_get c Binds))
            in if binds \<noteq> [] then Some (BindList binds) else Some EmptyDict)
         else None),
      cc_mounts = mounts,
      cc_network_mode =
        (if truthy_str (host_get c NetworkMode) then host_get c NetworkMode else None),
      cc_restart_policy =
        (if truthy_policy (host_get c RestartPolicy) then
           (let policy = the (host_get c RestartPolicy) in
            Some \<lparr>rp_Name = (case Name policy of None \<Rightarrow> ''no'' | Some n \<Rightarrow> n),
                  rp_MaximumRetryCount =
                    (case MaximumRetryCount policy of None \<Rightarrow> 0 | Some k \<Rightarrow> k)\<rparr>)
         else None),
      cc_privileged =
        (if truthy_bool (host_get c Privileged) then host_get c Privileged else None),
      cc_cap_add = (if truthy_list (host_get c CapAdd) then host_get c CapAdd else None),
      cc_cap_drop = (if truthy_list (host_get c CapDrop) then host_get c CapDrop else None),
      cc_mem_limit = (if truthy_int (host_get c Memory) then host_get c Memory else None),
      cc_nano_cpus = (if truthy_int (host_get c NanoCpus) then host_get c NanoCpus else None)\<rparr>"

definition build_container_config :: "container \<Rightarrow> exn + container_config" where
  "build_container_config c =
     (case Config (attrs c) of
        None \<Rightarrow> Inl (KeyError ''Config'')
      | Some cf \<Rightarrow>
          (case Image cf of
             None \<Rightarrow> Inl (KeyError ''Image'')
           | Some image' \<Rightarrow>
               (case (if truthy_list (host_get c Mounts)
                      then map_sum id Some (make_mounts (the (host_get c Mounts)))
                      else Inr None) of
                  Inl e \<Rightarrow> Inl e
                | Inr mounts \<Rightarrow> Inr (container_config_of c cf image' mounts))))"

definition recreate_container ::
  "'w platform \<Rightarrow> container \<Rightarrow> 'w state \<Rightarrow> bool \<times> 'w state" where
  "recreate_container api c s0 =
     (let s = s0\<lparr>trace := trace s0 @ [EvRecreate c]\<rparr> in
      case build_container_config c of
        Inl e \<Rightarrow> (False, s)
      | Inr container_config \<Rightarrow>
          (let (r1, w1) = container_stop api (world s) c 30;
               s1 = s\<lparr>world := w1, trace := trace s @ [EvStop c 30]\<rparr>
           in case r1 of
                Some e \<Rightarrow> (False, s1)
              | None \<Rightarrow>
                  (let (r2, w2) = container_remove api (world s1) c;
                       s2 = s1\<lparr>world := w2, trace := trace s1 @ [EvRemove c]\<rparr>
                   in case r2 of
                        Some e \<Rightarrow> (False, s2)
                      | None \<Rightarrow>
                          (let (r3, w3) = containers_run api (world s2) container_config;
                               s3 = s2\<lparr>world := w3, trace := trace s2 @ [EvRun container_config]\<rparr>
                           in case r3 of
                                Some e \<Rightarrow> (False, s3)
                              | None \<Rightarrow> (True, s3)))))"

section \<open>The cycle orchestrator\<close>

definition is_self_container :: "watcher \<Rightarrow> container \<Rightarrow> bool" where
  "is_self_container self c =
     (if truthy_str (self_container_name self)
      then c_name c = the (self_container_name self)
      else startswith (c_id c) (w_hostname self) \<or> short_id c = take 12 (w_hostname self))"

definition send_webhook ::
  "watcher \<Rightarrow> 'w platform \<Rightarrow> UpdateCycleReport \<Rightarrow> 'w state \<Rightarrow> bool \<times> 'w state" where
  "send_webhook self api report s0 =
     (let s = s0\<lparr>trace := trace s0 @ [EvSendWebhook report]\<rparr> in
      if webhook_url self = [] then (False, s)
      else
        (let has_updates = (containers_updated report > 0);
             has_errors = (containers_failed report > 0 \<or> length (errors report) > 0)
         in if \<not> webhook_always self
               \<and> \<not> (webhook_on_update self \<and> has_updates)
               \<and> \<not> (webhook_on_error self \<and> has_errors)
            then (False, s)
            else
              (let (ok, w1) = webhook_post api (world s) (webhook_url self) (webhook_format self) report
               in (ok, s\<lparr>world := w1,
                         trace := trace s @ [EvPost (webhook_url self) (webhook_format self) report]\<rparr>))))"

definition cleanup_unused_images ::
  "'w platform \<Rightarrow> 'w state \<Rightarrow> (exn + int \<times> rat) \<times> 'w state" where
  "cleanup_unused_images api s =
     (let (r1, w1) = images_prune api (world s) True;
          s1 = s\<lparr>world := w1, trace := trace s @ [EvPrune True]\<rparr>
      in case r1 of
           Inl e \<Rightarrow> (if is_APIError e then (Inr (0, 0 / (1024 ^ 2)), s1) else (Inl e, s1))
         | Inr pruned \<Rightarrow>
             (let deleted_count = int (length (ImagesDeleted pruned));
                  space_reclaimed = SpaceReclaimed pruned;
                  (r2, w2) = images_prune api (world s1) False;
                  s2 = s1\<lparr>world := w2, trace := trace s1 @ [EvPrune False]\<rparr>
              in case r2 of
                   Inl e \<Rightarrow>
                     (if is_APIError e
                      then (Inr (deleted_count, of_int space_reclaimed / (1024 ^ 2)), s2)
                      else (Inl e, s2))
                 | Inr pruned_all \<Rightarrow>
                     (let deleted_count_all = int (length (ImagesDeleted pruned_all));
                          space_reclaimed_all = SpaceReclaimed pruned_all
                      in (Inr (deleted_count + deleted_count_all,
                               of_int (space_reclaimed + space_reclaimed_all) / (1024 ^ 2)), s2))))"

definition perform_self_restart ::
  "watcher \<Rightarrow> 'w platform \<Rightarrow> 'w state \<Rightarrow> (exn + unit) \<times> 'w state" where
  "perform_self_restart self api s0 =
     (let s = s0\<lparr>trace := trace s0 @ [EvSelfRestart]\<rparr> in
      if \<not> truthy_str (self_container_name self) then (Inr (), s)
      else
        (case containers_get api (world s) (the (self_container_name self)) of
           Inl e \<Rightarrow> (if is_APIError e then (Inr (), s) else (Inl e, s))
         | Inr container \<Rightarrow>
             (let w1 = sleep api (world s) 1;
                  s1 = s\<lparr>world := w1, trace := trace s @ [EvSleep 1]\<rparr>;
                  (r, w2) = container_stop api (world s1) container 10;
                  s2 = s1\<lparr>world := w2, trace := trace s1 @ [EvStop container 10]\<rparr>
              in case r of
                   None \<Rightarrow> (Inr (), s2)
                 | Some e \<Rightarrow> (if is_APIError e then (Inr (), s2) else (Inl e, s2)))))"

text \<open>\<^verbatim>\<open>self.get_image_name(container) or "unknown"\<close>.\<close>

definition image_name_or_unknown :: "container \<Rightarrow> string" where
  "image_name_or_unknown c =
     (if truthy_str (get_image_name c) then the (get_image_name c) else ''unknown'')"

text \<open>\<^verbatim>\<open>labels.get('docker-image-watch.disable', '').lower() == 'true'\<close>.\<close>

definition disabled_by_label :: "container \<Rightarrow> bool" where
  "disabled_by_label c =
     (lower (case map_of (c_labels c) ''docker-image-watch.disable'' of
               None \<Rightarrow> []
             | Some v \<Rightarrow> v) = ''true'')"

definition add_report ::
  "UpdateCycleReport \<Rightarrow> container \<Rightarrow> string \<Rightarrow> string \<Rightarrow> string \<Rightarrow> UpdateCycleReport" where
  "add_report report c image_name st msg =
     report\<lparr>container_reports := container_reports report @
       [\<lparr>cr_name = c_name c, cr_image = image_name, cr_status = st, cr_message = msg\<rparr>]\<rparr>"

text \<open>The body of the loop over the containers in \<^verbatim>\<open>run_update_cycle\<close>.\<close>

definition process_container ::
  "watcher \<Rightarrow> 'w platform \<Rightarrow> container \<Rightarrow> UpdateCycleReport \<times> 'w state
     \<Rightarrow> UpdateCycleReport \<times> 'w state" where
  "process_container self api c rs =
     (let (report, s) = rs in
      if is_self_container self c then
        (let image_name = image_name_or_unknown c;
             (update_result, s1) = check_for_update_with_status api c s
         in if update_result = ''update_available'' then
              (add_report (report\<lparr>containers_checked := containers_checked report + 1\<rparr>)
                 c image_name ''pending-restart'' ''self-update: restart required'',
               s1\<lparr>self_update_available := True, self_container_image := Some image_name\<rparr>)
            else if update_result = ''up_to_date'' then
              (add_report (report\<lparr>containers_checked := containers_checked report + 1\<rparr>)
                 c image_name ''up-to-date'' ''(self)'', s1)
            else if update_result = ''skipped'' then
              (add_report (report\<lparr>containers_skipped := containers_skipped report + 1\<rparr>)
                 c image_name ''skipped'' ''local-only image (self)'', s1)
            else (report, s1))
      else
        (let report1 = report\<lparr>containers_checked := containers_checked report + 1\<rparr>;
             image_name = image_name_or_unknown c
         in if disabled_by_label c then
              (add_report (report1\<lparr>containers_skipped := containers_skipped report1 + 1\<rparr>)
                 c image_name ''skipped'' ''disabled by label'', s)
            else
              (let (update_result, s1) = check_for_update_with_status api c s
               in if update_result = ''skipped'' then
                    (add_report (report1\<lparr>containers_skipped := containers_skipped report1 + 1\<rparr>)
                       c image_name ''skipped'' ''local-only image'', s1)
                  else if update_result = ''update_available'' then
                    (let (ok, s2) = recreate_container api c s1
                     in if ok then
                          (add_report
                             (report1\<lparr>containers_updated := containers_updated report1 + 1\<rparr>)
                             c image_name ''updated'' ''successfully updated'', s2)
                        else
                          (add_report
                             (report1\<lparr>containers_failed := containers_failed report1 + 1\<rparr>)
                             c image_name ''error'' ''failed to recreate container'', s2))
                  else if update_result = ''up_to_date'' then
                    (add_report report1 c image_name ''up-to-date'' [], s1)
                  else if update_result = ''error'' then
                    (add_report (report1\<lparr>containers_failed := containers_failed report1 + 1\<rparr>)
                       c image_name ''error'' ''error checking for updates'', s1)
                  else (report1, s1))))"

fun process_containers ::
  "watcher \<Rightarrow> 'w platform \<Rightarrow> container list \<Rightarrow> UpdateCycleReport \<times> 'w state
     \<Rightarrow> UpdateCycleReport \<times> 'w state" where
  "process_containers self api [] rs = rs"
| "process_containers self api (c # cs) rs =
     process_containers self api cs (process_container self api c rs)"

text \<open>How control leaves the \<^verbatim>\<open>try\<close> block of \<^verbatim>\<open>run_update_cycle\<close>: by an
  exception, by the \<^verbatim>\<open>return\<close> taken when no container is running, or at its end.\<close>

datatype flow = Raised exn | Returned | Completed

definition cycle_body ::
  "watcher \<Rightarrow> 'w platform \<Rightarrow> rat \<Rightarrow> UpdateCycleReport \<Rightarrow> 'w state
     \<Rightarrow> flow \<times> UpdateCycleReport \<times> 'w state" where
  "cycle_body self api start_time report s =
     (case containers_list api (world s) of
        Inl e \<Rightarrow> (Raised e, report, s)
      | Inr containers \<Rightarrow>
          (if containers = [] then
             (let report1 = report\<lparr>duration_seconds := now api (world s) - start_time\<rparr>;
                  (ok, s1) = send_webhook self api report1 s
              in (Returned, report1, s1))
           else
             (let s1 = s\<lparr>self_update_available := False, self_container_image := None\<rparr>;
                  (report2, s2) = process_containers self api containers (report, s1)
              in case cleanup_unused_images api s2 of
                   (Inl e, s3) \<Rightarrow> (Raised e, report2, s3)
                 | (Inr (cleaned, space_reclaimed), s3) \<Rightarrow>
                     (let report3 = report2\<lparr>images_cleaned := cleaned,
                                            space_reclaimed_mb := space_reclaimed\<rparr>;
                          report4 =
                            (if self_update_available s3
                             then report3\<lparr>containers_updated := containers_updated report3 + 1\<rparr>
                             else report3)
                      in (Completed, report4, s3)))))"

definition cycle_error_msg :: "exn \<Rightarrow> string" where
  "cycle_error_msg e =
     (if is_APIError e then ''Docker API error during update cycle: '' @ exn_str e
      else ''Unexpected error during update cycle: '' @ exn_str e)"

definition initial_report :: "watcher \<Rightarrow> 'w platform \<Rightarrow> rat \<Rightarrow> UpdateCycleReport" where
  "initial_report self api start_time =
     \<lparr>timestamp = strftime api start_time, hostname = w_hostname self, duration_seconds = 0,
      containers_checked = 0, containers_updated = 0, containers_skipped = 0,
      containers_failed = 0, images_cleaned = 0, space_reclaimed_mb = 0,
      container_reports = [], errors = []\<rparr>"

text \<open>The end of \<^verbatim>\<open>run_update_cycle\<close>, after the \<^verbatim>\<open>try\<close> statement: the duration is
  stamped, the report goes to \<^verbatim>\<open>send_webhook\<close>, and then the self-restart is done
  if the flag is set.\<close>

definition finish_cycle ::
  "watcher \<Rightarrow> 'w platform \<Rightarrow> rat \<Rightarrow> UpdateCycleReport \<Rightarrow> 'w state
     \<Rightarrow> (exn + unit) \<times> 'w state" where
  "finish_cycle self api start_time report s =
     (let report1 = report\<lparr>duration_seconds := now api (world s) - start_time\<rparr>;
          (ok, s1) = send_webhook self api report1 s
      in if self_update_available s1 then perform_self_restart self api s1
         else (Inr (), s1))"

definition run_update_cycle ::
  "watcher \<Rightarrow> 'w platform \<Rightarrow> 'w state \<Rightarrow> (exn + unit) \<times> 'w state" where
  "run_update_cycle self api s =
     (let start_time = now api (world s);
          (fl, report1, s1) = cycle_body self api start_time (initial_report self api start_time) s
      in case fl of
           Returned \<Rightarrow> (Inr (), s1)
         | Raised e \<Rightarrow>
             finish_cycle self api start_time
               (report1\<lparr>errors := errors report1 @ [cycle_error_msg e]\<rparr>) s1
         | Completed \<Rightarrow> finish_cycle self api start_time report1 s1)"

section \<open>The scheduler loop\<close>

text \<open>\<^verbatim>\<open>self.running\<close> starts as \<^verbatim>\<open>True\<close> and only the signal handler clears it, so
  reading it tells whether a termination signal has arrived.\<close>

definition running :: "'w platform \<Rightarrow> 'w state \<Rightarrow> bool" where
  "running api s = (\<not> shutdown_signal api (world s))"

text \<open>The inner loop of \<^verbatim>\<open>run\<close>, which sleeps until the scheduled instant.\<close>

function sleep_loop :: "'w platform \<Rightarrow> rat \<Rightarrow> 'w state \<Rightarrow> 'w state" where
  "sleep_loop api wait_seconds s =
     (if wait_seconds > 0 \<and> running api s then
        sleep_loop api (wait_seconds - min wait_seconds 60)
          (s\<lparr>world := sleep api (world s) (min wait_seconds 60),
             trace := trace s @ [EvSleep (min wait_seconds 60)]\<rparr>)
      else s)"
  by pat_completeness auto
termination
proof (relation "measure (\<lambda>(api, wait_seconds, s). nat \<lceil>wait_seconds\<rceil>)")
  show "wf (measure (\<lambda>(api, wait_seconds, s). nat \<lceil>wait_seconds :: rat\<rceil>))"
    by simp
next
  fix api :: "'w platform" and wait_seconds :: rat and s :: "'w state"
  assume a: "0 < wait_seconds \<and> running api s"
  have "\<lceil>wait_seconds - min wait_seconds 60\<rceil> < \<lceil>wait_seconds\<rceil>"
  proof (cases "wait_seconds \<le> 60")
    case True
    with a show ?thesis by (simp add: min_def)
  next
    case False
    then have "wait_seconds - min wait_seconds 60 = wait_seconds - 60"
      by (simp add: min_def)
    moreover have "\<lceil>wait_seconds - 60\<rceil> = \<lceil>wait_seconds\<rceil> - 60"
      by simp
    ultimately show ?thesis by simp
  qed
  moreover have "0 < \<lceil>wait_seconds\<rceil>" using a by simp
  ultimately show "((api, wait_seconds - min wait_seconds 60,
            s\<lparr>world := sleep api (world s) (min wait_seconds 60),
              trace := trace s @ [EvSleep (min wait_seconds 60)]\<rparr>),
           (api, wait_seconds, s))
          \<in> measure (\<lambda>(api, wait_seconds, s). nat \<lceil>wait_seconds\<rceil>)"
    by simp
qed

declare sleep_loop.simps [simp del]

text \<open>The handler of the \<^verbatim>\<open>try\<close> statement in the main loop: \<^verbatim>\<open>time.sleep(60)\<close>.\<close>

definition backoff :: "'w platform \<Rightarrow> 'w state \<Rightarrow> 'w state" where
  "backoff api s = s\<lparr>world := sleep api (world s) 60, trace := trace s @ [EvSleep 60]\<rparr>"

text \<open>
  One pass of the main loop of \<^verbatim>\<open>run\<close>. The cron iterator is the schedule
  together with the instant at which it stands: \<^verbatim>\<open>get_next\<close> moves it to the instant
  it returns, and \<^verbatim>\<open>croniter(cron_schedule, datetime.now())\<close> makes a new one
  standing at the present instant. \<open>wait_for_next_run\<close> is the part of the pass
  between \<^verbatim>\<open>get_next\<close> and the test that precedes the cycle.
\<close>

definition wait_for_next_run :: "'w platform \<Rightarrow> rat \<Rightarrow> rat \<Rightarrow> 'w state \<Rightarrow> 'w state" where
  "wait_for_next_run api cron next_run s =
     (let s0 = s\<lparr>trace := trace s @ [EvCronNext cron next_run]\<rparr>;
          wait_seconds = next_run - now api (world s0)
      in if wait_seconds > 0 then sleep_loop api wait_seconds s0 else s0)"

definition scheduler_step ::
  "watcher \<Rightarrow> 'w platform \<Rightarrow> string \<Rightarrow> rat \<times> 'w state \<Rightarrow> rat \<times> 'w state" where
  "scheduler_step self api cron_schedule cs =
     (let (cron, s) = cs in
      case croniter_next api cron_schedule cron of
        Inl e \<Rightarrow> (cron, backoff api s)
      | Inr next_run \<Rightarrow>
          (let s1 = wait_for_next_run api cron next_run s
           in if running api s1 then
                (case run_update_cycle self api s1 of
                   (Inl e, s2) \<Rightarrow> (next_run, backoff api s2)
                 | (Inr u, s2) \<Rightarrow> (now api (world s2), s2))
              else (next_run, s1)))"

text \<open>The main loop, with a bound on the number of passes: \<open>None\<close> when the
  bound is reached before a termination signal ends the loop.\<close>

fun run_loop ::
  "nat \<Rightarrow> watcher \<Rightarrow> 'w platform \<Rightarrow> string \<Rightarrow> rat \<times> 'w state \<Rightarrow> (rat \<times> 'w state) option" where
  "run_loop 0 self api cron_schedule cs = None"
| "run_loop (Suc n) self api cron_schedule cs =
     (if running api (snd cs)
      then run_loop n self api cron_schedule (scheduler_step self api cron_schedule cs)
      else Some cs)"

text \<open>\<^verbatim>\<open>run\<close>: the schedule is taken from the environment (the default replaces
  one that the cron library refuses), one cycle is run at once if so configured
  (an exception that leaves it leaves \<^verbatim>\<open>run\<close> too), and the main loop follows.\<close>

definition run ::
  "nat \<Rightarrow> watcher \<Rightarrow> 'w platform \<Rightarrow> 'w state \<Rightarrow> ((exn + unit) \<times> 'w state) option" where
  "run fuel self api s =
     (let schedule0 = (case environ api ''UPDATE_SCHEDULE'' of
                         None \<Rightarrow> ''0 4 * * *'' | Some v \<Rightarrow> v);
          cron_schedule = (if croniter_valid api schedule0 then schedule0 else ''0 4 * * *'');
          cron = now api (world s);
          run_on_startup =
            (lower (case environ api ''RUN_ON_STARTUP'' of None \<Rightarrow> ''false'' | Some v \<Rightarrow> v)
               = ''true'')
      in if run_on_startup then
           (case run_update_cycle self api s of
              (Inl e, s1) \<Rightarrow> Some (Inl e, s1)
            | (Inr u, s1) \<Rightarrow>
                map_option (\<lambda>cs. (Inr (), snd cs)) (run_loop fuel self api cron_schedule (cron, s1)))
         else map_option (\<lambda>cs. (Inr (), snd cs)) (run_loop fuel self api cron_schedule (cron, s)))"

section \<open>Vocabulary of the properties\<close>

text \<open>A digest whose repository has a first segment, cut at \<^verbatim>\<open>/\<close>, that holds a dot
  or a colon: a registry host or host:port.\<close>

definition registry_host_digest :: "string \<Rightarrow> bool" where
  "registry_host_digest digest =
     (let digest_repo = hd (str_split (CHR ''@'') digest) in
      CHR ''/'' \<in> set digest_repo \<and>
      (let first_segment = hd (str_split (CHR ''/'') digest_repo) in
       CHR ''.'' \<in> set first_segment \<or> CHR '':'' \<in> set first_segment))"

text \<open>A digest whose repository has one segment only and is the base name of
  the image reference (or the last segment of that base name).\<close>

definition official_image_digest :: "string \<Rightarrow> string \<Rightarrow> bool" where
  "official_image_digest image_name digest =
     (let digest_repo = hd (str_split (CHR ''@'') digest);
          image_base = hd (str_split (CHR '':'') image_name) in
      CHR ''/'' \<notin> set digest_repo \<and>
      (digest_repo = image_base \<or> digest_repo = last (str_split (CHR ''/'') image_base)))"

text \<open>The text of a pull failure that \<^verbatim>\<open>pull_image\<close> takes to say that the
  repository or tag is in no registry.\<close>

definition not_found_message :: "string \<Rightarrow> bool" where
  "not_found_message msg =
     (str_contains ''repository does not exist'' msg \<or> str_contains ''pull access denied'' msg
      \<or> str_contains ''not found'' (lower msg))"

text \<open>\<^verbatim>\<open>config['Config'].get(key)\<close>, for a container that has a \<^verbatim>\<open>Config\<close> section.\<close>

definition config_get :: "container \<Rightarrow> (config_section \<Rightarrow> 'a option) \<Rightarrow> 'a option" where
  "config_get c key = (case Config (attrs c) of None \<Rightarrow> None | Some cf \<Rightarrow> key cf)"

text \<open>The events that a run from state \<open>s\<close> to state \<open>s'\<close> has added.\<close>

definition new_events :: "'w state \<Rightarrow> 'w state \<Rightarrow> event list" where
  "new_events s s' = drop (length (trace s)) (trace s')"

text \<open>The events that the loop over the containers can add: calls of the
  detector (never for an ordinary container disabled by its label), pulls, and
  calls of the recreator with its stop (grace period 30), removal and creation,
  none of them on a self container.\<close>

fun loop_event :: "watcher \<Rightarrow> event \<Rightarrow> bool" where
  "loop_event self (EvPull a b) = True"
| "loop_event self (EvCheck c) = (is_self_container self c \<or> \<not> disabled_by_label c)"
| "loop_event self (EvChecked c r) = True"
| "loop_event self (EvRecreate c) = (\<not> is_self_container self c)"
| "loop_event self (EvStop c t) = (\<not> is_self_container self c \<and> t = 30)"
| "loop_event self (EvRemove c) = (\<not> is_self_container self c)"
| "loop_event self (EvRun q) = True"
| "loop_event self (EvPrune d) = False"
| "loop_event self (EvPost u f r) = False"
| "loop_event self (EvSleep d) = False"
| "loop_event self (EvSendWebhook r) = False"
| "loop_event self EvSelfRestart = False"
| "loop_event self (EvCronNext t n) = False"

text \<open>The events that a cycle can add after the loop: pruning, the webhook, and
  the self-restart with its one-second pause and its stop (grace period 10).\<close>

fun tail_event :: "event \<Rightarrow> bool" where
  "tail_event (EvPrune d) = True"
| "tail_event (EvSendWebhook r) = True"
| "tail_event (EvPost u f r) = True"
| "tail_event EvSelfRestart = True"
| "tail_event (EvSleep d) = (d = 1)"
| "tail_event (EvStop c t) = (t = 10)"
| "tail_event ev = False"

text \<open>The report entry of a self container with a pending restart, and the
  number of entries with status \<^verbatim>\<open>updated\<close>.\<close>

definition pending_report :: "container \<Rightarrow> ContainerReport" where
  "pending_report c =
     \<lparr>cr_name = c_name c, cr_image = image_name_or_unknown c,
      cr_status = ''pending-restart'', cr_message = ''self-update: restart required''\<rparr>"

definition count_updated :: "ContainerReport list \<Rightarrow> int" where
  "count_updated rs = int (length (filter (\<lambda>r. cr_status r = ''updated'') rs))"

text \<open>
  What the loop over the containers keeps true between a pair of report and
  state and a later one: events are only added and are loop events; report
  entries are only added; the counter of updated containers grows by the number
  of added \<^verbatim>\<open>updated\<close> entries; the cycle-level errors stay; the self-update flag
  is never taken back; and a self container whose check has returned
  \<^verbatim>\<open>update_available\<close> has set the flag and has its pending-restart entry.
\<close>

definition loop_progress ::
  "watcher \<Rightarrow> UpdateCycleReport \<times> 'w state \<Rightarrow> UpdateCycleReport \<times> 'w state \<Rightarrow> bool" where
  "loop_progress self rs rs' =
     (\<exists>evs reps.
        trace (snd rs') = trace (snd rs) @ evs
        \<and> list_all (loop_event self) evs
        \<and> container_reports (fst rs') = container_reports (fst rs) @ reps
        \<and> containers_updated (fst rs') = containers_updated (fst rs) + count_updated reps
        \<and> errors (fst rs') = errors (fst rs)
        \<and> (self_update_available (snd rs) \<longrightarrow> self_update_available (snd rs'))
        \<and> (\<forall>c. is_self_container self c \<and> EvChecked c ''update_available'' \<in> set evs
               \<longrightarrow> self_update_available (snd rs') \<and> pending_report c \<in> set reps))"

section \<open>Scenarios\<close>

text \<open>
  A small runtime for concrete runs. Its state counts the operations done so
  far. It holds a locally built image, an image from a registry host, an image
  of a Docker Hub namespace, and \<^verbatim>\<open>nginx:latest\<close>, whose digest changes with the
  first operation (a pull brings a new image). Pulls of three repositories
  fail: one as unknown to the registry, one with a server error, one with a
  transport error.
\<close>

definition demo_images :: "nat \<Rightarrow> string \<Rightarrow> exn + image" where
  "demo_images w n =
     (if n = ''myapp:latest'' then Inr \<lparr>img_id = ''sha256:01'', repo_digests = []\<rparr>
      else if n = ''ghcr.io/acme/app:1''
      then Inr \<lparr>img_id = ''sha256:02'', repo_digests = [''ghcr.io/acme/app@sha256:aa'']\<rparr>
      else if n = ''bitnami/redis:latest''
      then Inr \<lparr>img_id = ''sha256:03'', repo_digests = [''bitnami/redis@sha256:0a1b'']\<rparr>
      else if n = ''nginx:latest''
      then Inr \<lparr>img_id = ''sha256:04'',
                repo_digests = [if w = 0 then ''nginx@sha256:old'' else ''nginx@sha256:new'']\<rparr>
      else Inl (ImageNotFound ''No such image''))"

definition demo_pull :: "nat \<Rightarrow> string \<Rightarrow> string \<Rightarrow> exn option \<times> nat" where
  "demo_pull w repo tag =
     (if repo = ''private/app''
      then (Some (APIError ''pull access denied for private/app, repository does not exist''), Suc w)
      else if repo = ''flaky/app''
      then (Some (APIError ''500 Server Error: Internal Server Error''), Suc w)
      else if repo = ''broken/app''
      then (Some (OtherException ''Connection aborted''), Suc w)
      else (None, Suc w))"

definition demo_platform :: "nat platform" where
  "demo_platform =
     \<lparr>images_get = demo_images,
      pull = demo_pull,
      containers_list = (\<lambda>w. Inr []),
      containers_get = (\<lambda>w n. Inl (NotFound ''No such container'')),
      container_stop = (\<lambda>w c t. (None, Suc w)),
      container_remove = (\<lambda>w c. (None, Suc w)),
      containers_run = (\<lambda>w cfg. (None, Suc w)),
      images_prune = (\<lambda>w d. (Inr \<lparr>ImagesDeleted = [], SpaceReclaimed = 0\<rparr>, Suc w)),
      webhook_post = (\<lambda>w u f r. (True, Suc w)),
      now = (\<lambda>w. of_nat w),
      strftime = (\<lambda>t. ''2024-01-01 04:00:00''),
      sleep = (\<lambda>w d. Suc w),
      shutdown_signal = (\<lambda>w. False),
      environ = (\<lambda>k. None),
      croniter_valid = (\<lambda>schedule. True),
      croniter_next = (\<lambda>schedule t. Inr (t + 60))\<rparr>"

definition demo_state :: "nat state" where
  "demo_state =
     \<lparr>world = 0, trace = [], self_update_available = False, self_container_image = None\<rparr>"

text \<open>A container running the image with the given tag, with no further
  configuration.\<close>

definition demo_container :: "string \<Rightarrow> string \<Rightarrow> container" where
  "demo_container n tag =
     \<lparr>c_name = n, c_id = ''0123456789abcdef'', short_id = ''0123456789ab'',
      image_tags = [tag], c_labels = [],
      attrs = \<lparr>Config = Some \<lparr>Image = Some tag, Env = None, Cmd = None, Entrypoint = None,
                               WorkingDir = None, User = None, Labels = None\<rparr>,
               HostConfig = None\<rparr>\<rparr>"

text \<open>A container with every optional setting present, and one with a \<^verbatim>\<open>tmpfs\<close>
  mount, which the runtime reports without a \<^verbatim>\<open>Source\<close> key.\<close>

definition full_container :: container where
  "full_container =
     \<lparr>c_name = ''db'', c_id = ''aa23456789abcdef'', short_id = ''aa23456789ab'',
      image_tags = [''nginx:latest''], c_labels = [(''tier'', ''data'')],
      attrs =
        \<lparr>Config = Some \<lparr>Image = Some ''nginx:latest'', Env = Some [''A=1''],
                         Cmd = Some [''run''], Entrypoint = Some [''/init''],
                         WorkingDir = Some ''/srv'', User = Some ''app'',
                         Labels = Some [(''tier'', ''data'')]\<rparr>,
         HostConfig = Some \<lparr>PortBindings = Some [(''80/tcp'', [(''0.0.0.0'', ''8080'')])],
                             Binds = Some [''/data:/var/lib/data'', ''/scratch''],
                             Mounts = Some [\<lparr>Target = Some ''/cfg'', Source = Some ''cfg'',
                                             Type = Some ''volume'', ReadOnly = Some True\<rparr>],
                             NetworkMode = Some ''bridge'',
                             RestartPolicy = Some \<lparr>Name = Some ''always'',
                                                    MaximumRetryCount = None\<rparr>,
                             Privileged = Some True, CapAdd = Some [''NET_ADMIN''],
                             CapDrop = Some [''MKNOD''], Memory = Some 1024,
                             NanoCpus = Some 500\<rparr>\<rparr>\<rparr>"

definition full_request :: container_config where
  "full_request =
     \<lparr>cc_image = ''nginx:latest'', cc_name = ''db'', cc_detach = True,
      cc_environment = Some [''A=1''], cc_command = Some [''run''],
      cc_entrypoint = Some [''/init''], cc_working_dir = Some ''/srv'', cc_user = Some ''app'',
      cc_labels = Some [(''tier'', ''data'')],
      cc_ports = Some [(''80/tcp'', [(''0.0.0.0'', ''8080'')])],
      cc_volumes = Some (BindList [''/data:/var/lib/data'']),
      cc_mounts = Some [\<lparr>m_target = ''/cfg'', m_source = ''cfg'', m_type = ''volume'',
                         m_read_only = True\<rparr>],
      cc_network_mode = Some ''bridge'',
      cc_restart_policy = Some \<lparr>rp_Name = ''always'', rp_MaximumRetryCount = 0\<rparr>,
      cc_privileged = Some True, cc_cap_add = Some [''NET_ADMIN''],
      cc_cap_drop = Some [''MKNOD''], cc_mem_limit = Some 1024, cc_nano_cpus = Some 500\<rparr>"

definition tmpfs_container :: container where
  "tmpfs_container =
     \<lparr>c_name = ''cache'', c_id = ''bb23456789abcdef'', short_id = ''bb23456789ab'',
      image_tags = [''nginx:latest''], c_labels = [],
      attrs =
        \<lparr>Config = Some \<lparr>Image = Some ''nginx:latest'', Env = None, Cmd = None,
                         Entrypoint = None, WorkingDir = None, User = None, Labels = None\<rparr>,
         HostConfig = Some \<lparr>PortBindings = None, Binds = None,
                             Mounts = Some [\<lparr>Target = Some ''/tmp/cache'', Source = None,
                                             Type = Some ''tmpfs'', ReadOnly = None\<rparr>],
                             NetworkMode = Some ''bridge'', RestartPolicy = None,
                             Privileged = None, CapAdd = None, CapDrop = None, Memory = None,
                             NanoCpus = None\<rparr>\<rparr>\<rparr>"

text \<open>The scenario runtime with a \<^verbatim>\<open>stop\<close>, a \<^verbatim>\<open>remove\<close> or a \<^verbatim>\<open>run\<close> that fails.\<close>

definition stop_fails :: "nat platform" where
  "stop_fails =
     demo_platform\<lparr>container_stop := (\<lambda>w c t. (Some (APIError ''cannot stop container''), Suc w))\<rparr>"

definition remove_fails :: "nat platform" where
  "remove_fails =
     demo_platform\<lparr>container_remove := (\<lambda>w c. (Some (APIError ''removal in progress''), Suc w))\<rparr>"

definition run_fails :: "nat platform" where
  "run_fails =
     demo_platform\<lparr>containers_run := (\<lambda>w cfg. (Some (APIError ''port is already allocated''), Suc w))\<rparr>"

text \<open>
  The watcher of the scenarios runs in the container \<^verbatim>\<open>watch\<close>. In the first
  scenario its own container is the only one and its image has an update; in
  the second the pruning of images ends with a transport error as well; in the
  third the pull of its image fails with a server error; in the fourth the
  listing of the containers fails.
\<close>

definition demo_watcher :: watcher where
  "demo_watcher =
     \<lparr>w_hostname = ''0123456789ab'', self_container_name = Some ''watch'',
      webhook_url = ''https://hooks.example.org/notify'', webhook_format = ''auto'',
      webhook_on_update = True, webhook_on_error = True, webhook_always = False\<rparr>"

definition watch_container :: container where
  "watch_container = demo_container ''watch'' ''nginx:latest''"

definition self_update_platform :: "nat platform" where
  "self_update_platform =
     demo_platform\<lparr>containers_list := (\<lambda>w. Inr [watch_container]),
                   containers_get := (\<lambda>w n. if n = ''watch'' then Inr watch_container
                                             else Inl (NotFound ''No such container''))\<rparr>"

definition pending_cycle_report :: UpdateCycleReport where
  "pending_cycle_report =
     \<lparr>timestamp = ''2024-01-01 04:00:00'', hostname = ''0123456789ab'', duration_seconds = 3,
      containers_checked = 1, containers_updated = 1, containers_skipped = 0,
      containers_failed = 0, images_cleaned = 0, space_reclaimed_mb = 0,
      container_reports = [pending_report watch_container], errors = []\<rparr>"

definition prune_breaks :: "nat platform" where
  "prune_breaks =
     self_update_platform\<lparr>images_prune := (\<lambda>w d. (Inl (OtherException ''Read timed out''), Suc w))\<rparr>"

definition uncounted_report :: UpdateCycleReport where
  "uncounted_report =
     \<lparr>timestamp = ''2024-01-01 04:00:00'', hostname = ''0123456789ab'', duration_seconds = 2,
      containers_checked = 1, containers_updated = 0, containers_skipped = 0,
      containers_failed = 0, images_cleaned = 0, space_reclaimed_mb = 0,
      container_reports = [pending_report watch_container],
      errors = [''Unexpected error during update cycle: Read timed out'']\<rparr>"

definition flaky_watch_container :: container where
  "flaky_watch_container = demo_container ''watch'' ''flaky/app:1''"

definition self_error_platform :: "nat platform" where
  "self_error_platform = demo_platform\<lparr>containers_list := (\<lambda>w. Inr [flaky_watch_container])\<rparr>"

definition empty_cycle_report :: UpdateCycleReport where
  "empty_cycle_report =
     \<lparr>timestamp = ''2024-01-01 04:00:00'', hostname = ''0123456789ab'', duration_seconds = 3,
      containers_checked = 0, containers_updated = 0, containers_skipped = 0,
      containers_failed = 0, images_cleaned = 0, space_reclaimed_mb = 0,
      container_reports = [], errors = []\<rparr>"

definition list_fails :: "nat platform" where
  "list_fails =
     demo_platform\<lparr>containers_list := (\<lambda>w. Inl (APIError ''Cannot connect to the Docker daemon''))\<rparr>"

definition list_failed_report :: UpdateCycleReport where
  "list_failed_report =
     \<lparr>timestamp = ''2024-01-01 04:00:00'', hostname = ''0123456789ab'', duration_seconds = 0,
      containers_checked = 0, containers_updated = 0, containers_skipped = 0,
      containers_failed = 0, images_cleaned = 0, space_reclaimed_mb = 0,
      container_reports = [],
      errors = [''Docker API error during update cycle: Cannot connect to the Docker daemon'']\<rparr>"

text \<open>A runtime on which the lookup of the watcher's own container ends with a
  transport error, and one that lists an ordinary container with the disabling
  label.\<close>

definition restart_breaks :: "nat platform" where
  "restart_breaks =
     self_update_platform\<lparr>containers_get := (\<lambda>w n. Inl (OtherException ''Connection aborted''))\<rparr>"

text \<open>An ordinary container that carries the disabling label.\<close>

definition disabled_container :: container where
  "disabled_container =
     (demo_container ''web'' ''nginx:latest'')\<lparr>c_labels := [(''docker-image-watch.disable'', ''True'')]\<rparr>"

definition disabled_platform :: "nat platform" where
  "disabled_platform = demo_platform\<lparr>containers_list := (\<lambda>w. Inr [disabled_container])\<rparr>"

text \<open>
  Scenarios of the scheduler. The cron iterator of the scenario runtime gives
  the instant 60 later than the one at which it stands. In the first scenario
  the process is configured to run a cycle at start and a termination signal
  arrives with the third operation; in the second the signal arrives with the
  first operation; in the third the cron iterator raises; in the fourth the
  scheduled instant is the present one and the self-restart of the cycle ends
  with a transport error.
\<close>

definition startup_platform :: "nat platform" where
  "startup_platform =
     disabled_platform\<lparr>environ := (\<lambda>k. if k = ''RUN_ON_STARTUP'' then Some ''true'' else None),
                       shutdown_signal := (\<lambda>w. 3 \<le> w)\<rparr>"

definition disabled_cycle_report :: UpdateCycleReport where
  "disabled_cycle_report =
     \<lparr>timestamp = ''2024-01-01 04:00:00'', hostname = ''0123456789ab'', duration_seconds = 2,
      containers_checked = 1, containers_updated = 0, containers_skipped = 1,
      containers_failed = 0, images_cleaned = 0, space_reclaimed_mb = 0,
      container_reports =
        [\<lparr>cr_name = ''web'', cr_image = ''nginx:latest'', cr_status = ''skipped'',
          cr_message = ''disabled by label''\<rparr>],
      errors = []\<rparr>"

definition signal_platform :: "nat platform" where
  "signal_platform = disabled_platform\<lparr>shutdown_signal := (\<lambda>w. 1 \<le> w)\<rparr>"

definition restart_breaks_now :: "nat platform" where
  "restart_breaks_now = restart_breaks\<lparr>croniter_next := (\<lambda>schedule t. Inr t)\<rparr>"

definition cron_breaks :: "nat platform" where
  "cron_breaks =
     disabled_platform\<lparr>croniter_next := (\<lambda>schedule t. Inl (OtherException ''no next date''))\<rparr>"

section \<open>Properties of the image classifier\<close>

lemmas demo_defs =
  demo_platform_def demo_images_def demo_pull_def demo_state_def demo_container_def
  stop_fails_def remove_fails_def run_fails_def
  demo_watcher_def watch_container_def self_update_platform_def pending_cycle_report_def
  prune_breaks_def uncounted_report_def flaky_watch_container_def self_error_platform_def
  empty_cycle_report_def list_fails_def list_failed_report_def disabled_container_def
  restart_breaks_def disabled_platform_def startup_platform_def disabled_cycle_report_def
  signal_platform_def cron_breaks_def restart_breaks_now_def

lemma digests_loop_iff:
  "digests_loop n ds =
     (\<not> list_ex (\<lambda>d. registry_host_digest d \<or> official_image_digest n d) ds)"
  by (induction ds) (auto simp: registry_host_digest_def official_image_digest_def Let_def)

text \<open>
  C6, as amended. For every image reference the classifier answers in this
  order: an empty or content-hash (\<^verbatim>\<open>sha256:\<close>) reference is local-only; an image
  present locally with no repository digests is local-only; for any other
  reference, an image present with a digest whose repository has a first
  segment holding a dot or a colon is not local-only, and a failed lookup
  (image not present locally) is not local-only. The classifier answers
  local-only exactly for the empty and content-hash references and for the
  present images none of whose digests shows a registry host or is the
  reference's own base name: so an image present with digests can be classified
  local-only too.
\<close>

theorem is_local_only_image_ladder:
  "(image_name = [] \<or> startswith image_name ''sha256:''
      \<longrightarrow> is_local_only_image api w image_name = Inr True)
   \<and> (images_get api w image_name = Inr img \<and> repo_digests img = []
      \<longrightarrow> is_local_only_image api w image_name = Inr True)
   \<and> (image_name \<noteq> [] \<and> \<not> startswith image_name ''sha256:''
       \<and> images_get api w image_name = Inr img
       \<and> list_ex registry_host_digest (repo_digests img)
      \<longrightarrow> is_local_only_image api w image_name = Inr False)
   \<and> (image_name \<noteq> [] \<and> \<not> startswith image_name ''sha256:''
       \<and> images_get api w image_name = Inl e \<and> is_APIError e
      \<longrightarrow> is_local_only_image api w image_name = Inr False)
   \<and> (is_local_only_image api w image_name = Inr True \<longleftrightarrow>
        image_name = [] \<or> startswith image_name ''sha256:''
        \<or> (\<exists>i. images_get api w image_name = Inr i
               \<and> \<not> list_ex (\<lambda>d. registry_host_digest d \<or> official_image_digest image_name d)
                     (repo_digests i)))"
  by (auto simp: is_local_only_image_def digests_loop_iff list_ex_iff split: sum.splits)

theorem is_local_only_image_ladder_witness:
  "startswith ''sha256:0a1b'' ''sha256:''
   \<and> is_local_only_image demo_platform 0 ''sha256:0a1b'' = Inr True
   \<and> images_get demo_platform 0 ''myapp:latest'' = Inr \<lparr>img_id = ''sha256:01'', repo_digests = []\<rparr>
   \<and> is_local_only_image demo_platform 0 ''myapp:latest'' = Inr True
   \<and> list_ex registry_host_digest [''ghcr.io/acme/app@sha256:aa'']
   \<and> is_local_only_image demo_platform 0 ''ghcr.io/acme/app:1'' = Inr False
   \<and> images_get demo_platform 0 ''redis:7'' = Inl (ImageNotFound ''No such image'')
   \<and> is_local_only_image demo_platform 0 ''redis:7'' = Inr False"
proof -
  have h1: "startswith ''sha256:0a1b'' ''sha256:''"
    by (simp add: startswith_def)
  have h2: "images_get demo_platform 0 ''myapp:latest''
      = Inr \<lparr>img_id = ''sha256:01'', repo_digests = []\<rparr>"
    by (simp add: demo_defs)
  have h3: "images_get demo_platform 0 ''ghcr.io/acme/app:1''
      = Inr \<lparr>img_id = ''sha256:02'', repo_digests = [''ghcr.io/acme/app@sha256:aa'']\<rparr>"
    by (simp add: demo_defs)
  have h3': "list_ex registry_host_digest [''ghcr.io/acme/app@sha256:aa'']"
    by (simp add: registry_host_digest_def)
  have h4: "images_get demo_platform 0 ''redis:7'' = Inl (ImageNotFound ''No such image'')"
    by (simp add: demo_defs)
  have n3: "\<not> startswith ''ghcr.io/acme/app:1'' ''sha256:''"
    and n4: "\<not> startswith ''redis:7'' ''sha256:''"
    by (simp_all add: startswith_def)
  have c1: "is_local_only_image demo_platform 0 ''sha256:0a1b'' = Inr True"
    using is_local_only_image_ladder
      [where image_name = "''sha256:0a1b''" and api = demo_platform and w = 0] h1
    by blast
  have c2: "is_local_only_image demo_platform 0 ''myapp:latest'' = Inr True"
    using is_local_only_image_ladder
      [where image_name = "''myapp:latest''" and api = demo_platform and w = 0
        and img = "\<lparr>img_id = ''sha256:01'', repo_digests = []\<rparr>"] h2
    by simp
  have c3: "is_local_only_image demo_platform 0 ''ghcr.io/acme/app:1'' = Inr False"
    using is_local_only_image_ladder
      [where image_name = "''ghcr.io/acme/app:1''" and api = demo_platform and w = 0
        and img = "\<lparr>img_id = ''sha256:02'', repo_digests = [''ghcr.io/acme/app@sha256:aa'']\<rparr>"]
      h3 h3' n3
    by simp
  have c4: "is_local_only_image demo_platform 0 ''redis:7'' = Inr False"
    using is_local_only_image_ladder
      [where image_name = "''redis:7''" and api = demo_platform and w = 0
        and e = "ImageNotFound ''No such image''"] h4 n4
    by simp
  show ?thesis using h1 h2 h3' h4 c1 c2 c3 c4 by blast
qed

text \<open>
  C6 as stated fails: \<^verbatim>\<open>bitnami/redis:latest\<close> is not a content-hash reference
  and is present locally with a repository digest, yet it is classified
  local-only, because the first segment of the digest's repository has neither
  a dot nor a colon.
\<close>

theorem namespaced_image_local_only:
  "images_get demo_platform 0 ''bitnami/redis:latest''
       = Inr \<lparr>img_id = ''sha256:03'', repo_digests = [''bitnami/redis@sha256:0a1b'']\<rparr>
   \<and> \<not> startswith ''bitnami/redis:latest'' ''sha256:''
   \<and> is_local_only_image demo_platform 0 ''bitnami/redis:latest'' = Inr True"
  by (simp add: is_local_only_image_def demo_defs startswith_def)

section \<open>Properties of the update detector\<close>

lemma check_result:
  "fst (check_for_update_with_status api c s) =
     (case fst (check_body api c (s\<lparr>trace := trace s @ [EvCheck c]\<rparr>)) of
        Inl e \<Rightarrow> ''error'' | Inr v \<Rightarrow> v)"
  by (simp add: check_for_update_with_status_def split_beta Let_def)

lemma pull_image_result:
  "pull api (world s) (fst (repo_and_tag image_name)) (snd (repo_and_tag image_name)) = (r, w1)
   \<Longrightarrow> fst (pull_image api image_name s) =
       (case r of
          None \<Rightarrow> Inr (True, False)
        | Some e \<Rightarrow>
            (if is_APIError e then Inr (False, not_found_message (exn_str e)) else Inl e))"
  by (auto simp: pull_image_def split_beta Let_def not_found_message_def split: option.splits)

lemma pull_image_world:
  "pull api (world s) (fst (repo_and_tag image_name)) (snd (repo_and_tag image_name)) = (r, w1)
   \<Longrightarrow> world (snd (pull_image api image_name s)) = w1"
  by (auto simp: pull_image_def split_beta Let_def split: option.splits)

lemma check_body_values:
  "fst (check_body api c s) = Inr v \<Longrightarrow>
     v \<in> {''update_available'', ''up_to_date'', ''skipped'', ''error''}"
  unfolding check_body_def
  by (auto split: option.splits sum.splits if_splits bool.splits prod.splits)

text \<open>
  C1. The update check returns \<^verbatim>\<open>skipped\<close> when the container has no tagged image
  reference, and when the classifier marks its image local-only. Otherwise,
  when the digest before the pull is \<open>old_digest\<close>, the pull succeeds and the
  digest after it is \<open>new_digest\<close> (either may be absent), the check returns
  \<^verbatim>\<open>update_available\<close> if both are non-empty and differ, and \<^verbatim>\<open>up_to_date\<close> in every
  other case.
\<close>

theorem check_for_update_decision:
  "(\<not> truthy_str (get_image_name c)
      \<longrightarrow> fst (check_for_update_with_status api c s) = ''skipped'')
   \<and> (get_image_name c = Some image_name
       \<and> is_local_only_image api (world s) image_name = Inr True
      \<longrightarrow> fst (check_for_update_with_status api c s) = ''skipped'')
   \<and> (get_image_name c = Some image_name
       \<and> is_local_only_image api (world s) image_name = Inr False
       \<and> get_image_digest api (world s) image_name = Inr old_digest
       \<and> pull api (world s) (fst (repo_and_tag image_name)) (snd (repo_and_tag image_name))
           = (None, w1)
       \<and> get_image_digest api w1 image_name = Inr new_digest
      \<longrightarrow> fst (check_for_update_with_status api c s) =
            (if truthy_str old_digest \<and> truthy_str new_digest \<and> old_digest \<noteq> new_digest
             then ''update_available'' else ''up_to_date''))"
proof (intro conjI impI)
  assume "\<not> truthy_str (get_image_name c)"
  then show "fst (check_for_update_with_status api c s) = ''skipped''"
    by (cases "get_image_name c") (simp_all add: check_result check_body_def)
next
  assume "get_image_name c = Some image_name
       \<and> is_local_only_image api (world s) image_name = Inr True"
  then show "fst (check_for_update_with_status api c s) = ''skipped''"
    by (simp add: check_result check_body_def)
next
  let ?s = "s\<lparr>trace := trace s @ [EvCheck c]\<rparr>"
  assume a: "get_image_name c = Some image_name
       \<and> is_local_only_image api (world s) image_name = Inr False
       \<and> get_image_digest api (world s) image_name = Inr old_digest
       \<and> pull api (world s) (fst (repo_and_tag image_name)) (snd (repo_and_tag image_name))
           = (None, w1)
       \<and> get_image_digest api w1 image_name = Inr new_digest"
  then have ne: "image_name \<noteq> []"
    by (auto simp: is_local_only_image_def)
  from a have p: "fst (pull_image api image_name ?s) = Inr (True, False)"
    using pull_image_result [of api ?s image_name None w1] by simp
  from a have w: "world (snd (pull_image api image_name ?s)) = w1"
    using pull_image_world [of api ?s image_name None w1] by simp
  show "fst (check_for_update_with_status api c s) =
            (if truthy_str old_digest \<and> truthy_str new_digest \<and> old_digest \<noteq> new_digest
             then ''update_available'' else ''up_to_date'')"
    using a ne p w
    by (cases "pull_image api image_name ?s") (simp add: check_result check_body_def)
qed

theorem check_for_update_decision_witness:
  "\<not> truthy_str (get_image_name ((demo_container ''job'' ''sha256:0a1b'')\<lparr>image_tags := []\<rparr>))
   \<and> fst (check_for_update_with_status demo_platform
             ((demo_container ''job'' ''sha256:0a1b'')\<lparr>image_tags := []\<rparr>) demo_state) = ''skipped''
   \<and> is_local_only_image demo_platform (world demo_state) ''myapp:latest'' = Inr True
   \<and> fst (check_for_update_with_status demo_platform
             (demo_container ''app'' ''myapp:latest'') demo_state) = ''skipped''
   \<and> get_image_digest demo_platform (world demo_state) ''nginx:latest''
       = Inr (Some ''nginx@sha256:old'')
   \<and> pull demo_platform (world demo_state) (fst (repo_and_tag ''nginx:latest''))
         (snd (repo_and_tag ''nginx:latest'')) = (None, 1)
   \<and> get_image_digest demo_platform 1 ''nginx:latest'' = Inr (Some ''nginx@sha256:new'')
   \<and> fst (check_for_update_with_status demo_platform
             (demo_container ''web'' ''nginx:latest'') demo_state) = ''update_available''"
proof -
  let ?job = "(demo_container ''job'' ''sha256:0a1b'')\<lparr>image_tags := []\<rparr>"
  have h1: "\<not> truthy_str (get_image_name ?job)"
    by (simp add: demo_defs get_image_name_def startswith_def)
  have h2: "get_image_name (demo_container ''app'' ''myapp:latest'') = Some ''myapp:latest''"
    by (simp add: demo_defs get_image_name_def)
  have h3: "is_local_only_image demo_platform (world demo_state) ''myapp:latest'' = Inr True"
    by (simp add: demo_defs is_local_only_image_def startswith_def)
  have h4: "get_image_name (demo_container ''web'' ''nginx:latest'') = Some ''nginx:latest''"
    by (simp add: demo_defs get_image_name_def)
  have h5: "is_local_only_image demo_platform (world demo_state) ''nginx:latest'' = Inr False"
    by (simp add: demo_defs is_local_only_image_def startswith_def)
  have h6: "get_image_digest demo_platform (world demo_state) ''nginx:latest''
       = Inr (Some ''nginx@sha256:old'')"
    by (simp add: demo_defs get_image_digest_def)
  have h7: "pull demo_platform (world demo_state) (fst (repo_and_tag ''nginx:latest''))
         (snd (repo_and_tag ''nginx:latest'')) = (None, 1)"
    by (simp add: demo_defs repo_and_tag_def rsplit1_def)
  have h8: "get_image_digest demo_platform 1 ''nginx:latest'' = Inr (Some ''nginx@sha256:new'')"
    by (simp add: demo_defs get_image_digest_def)
  have c1: "fst (check_for_update_with_status demo_platform ?job demo_state) = ''skipped''"
    using check_for_update_decision [where c = ?job and api = demo_platform and s = demo_state]
      h1 by blast
  have c2: "fst (check_for_update_with_status demo_platform
             (demo_container ''app'' ''myapp:latest'') demo_state) = ''skipped''"
    using check_for_update_decision
      [where c = "demo_container ''app'' ''myapp:latest''" and api = demo_platform
         and s = demo_state and image_name = "''myapp:latest''"] h2 h3
    by blast
  have c3: "fst (check_for_update_with_status demo_platform
             (demo_container ''web'' ''nginx:latest'') demo_state) = ''update_available''"
    using check_for_update_decision
      [where c = "demo_container ''web'' ''nginx:latest''" and api = demo_platform
         and s = demo_state and image_name = "''nginx:latest''"
         and old_digest = "Some ''nginx@sha256:old''" and new_digest = "Some ''nginx@sha256:new''"
         and ?w1.0 = 1] h4 h5 h6 h7 h8
    by simp
  show ?thesis using h1 h3 h6 h7 h8 c1 c2 c3 by blast
qed



section \<open>Properties of the recreator\<close>

lemma build_Inr:
  assumes "build_container_config c = Inr req"
  obtains cf image' mounts where
    "Config (attrs c) = Some cf" "Image cf = Some image'"
    "(if truthy_list (host_get c Mounts)
      then map_sum id Some (make_mounts (the (host_get c Mounts)))
      else Inr None) = Inr mounts"
    "req = container_config_of c cf image' mounts"
proof (cases "Config (attrs c)")
  case None
  with assms show ?thesis by (simp add: build_container_config_def)
next
  case cf: (Some cf)
  show ?thesis
  proof (cases "Image cf")
    case None
    with assms cf show ?thesis by (simp add: build_container_config_def)
  next
    case im: (Some image')
    show ?thesis
    proof (cases "if truthy_list (host_get c Mounts)
      then map_sum id Some (make_mounts (the (host_get c Mounts)))
      else Inr None")
      case (Inl e)
      with assms cf im show ?thesis by (simp add: build_container_config_def)
    next
      case (Inr mounts)
      with assms cf im that [of cf image' mounts] show ?thesis
        by (simp add: build_container_config_def)
    qed
  qed
qed

lemma build_fields:
  assumes "build_container_config c = Inr req"
  shows "cc_name req = c_name c \<and> Some (cc_image req) = config_get c Image \<and> cc_detach req"
    and "cc_environment req = (if truthy_list (config_get c Env) then config_get c Env else None)
       \<and> cc_command req = (if truthy_list (config_get c Cmd) then config_get c Cmd else None)
       \<and> cc_entrypoint req =
           (if truthy_list (config_get c Entrypoint) then config_get c Entrypoint else None)
       \<and> cc_working_dir req =
           (if truthy_str (config_get c WorkingDir) then config_get c WorkingDir else None)
       \<and> cc_user req = (if truthy_str (config_get c User) then config_get c User else None)
       \<and> cc_labels req =
           (if truthy_list (config_get c Labels) then config_get c Labels else None)"
    and "cc_ports req =
           (if truthy_list (host_get c PortBindings) then host_get c PortBindings else None)
       \<and> (cc_volumes req \<noteq> None) = truthy_list (host_get c Binds)
       \<and> (cc_mounts req \<noteq> None) = truthy_list (host_get c Mounts)
       \<and> cc_network_mode req =
           (if truthy_str (host_get c NetworkMode) then host_get c NetworkMode else None)
       \<and> (cc_restart_policy req \<noteq> None) = truthy_policy (host_get c RestartPolicy)"
    and "cc_privileged req =
           (if truthy_bool (host_get c Privileged) then host_get c Privileged else None)
       \<and> cc_cap_add req = (if truthy_list (host_get c CapAdd) then host_get c CapAdd else None)
       \<and> cc_cap_drop req =
           (if truthy_list (host_get c CapDrop) then host_get c CapDrop else None)
       \<and> cc_mem_limit req = (if truthy_int (host_get c Memory) then host_get c Memory else None)
       \<and> cc_nano_cpus req =
           (if truthy_int (host_get c NanoCpus) then host_get c NanoCpus else None)"
proof -
  from assms obtain cf image' mounts where
    cf: "Config (attrs c) = Some cf" and im: "Image cf = Some image'"
    and mo: "(if truthy_list (host_get c Mounts)
      then map_sum id Some (make_mounts (the (host_get c Mounts)))
      else Inr None) = Inr mounts"
    and req: "req = container_config_of c cf image' mounts"
    by (rule build_Inr)
  show "cc_name req = c_name c \<and> Some (cc_image req) = config_get c Image \<and> cc_detach req"
    by (simp add: req container_config_of_def config_get_def cf im)
  show "cc_environment req = (if truthy_list (config_get c Env) then config_get c Env else None)
       \<and> cc_command req = (if truthy_list (config_get c Cmd) then config_get c Cmd else None)
       \<and> cc_entrypoint req =
           (if truthy_list (config_get c Entrypoint) then config_get c Entrypoint else None)
       \<and> cc_working_dir req =
           (if truthy_str (config_get c WorkingDir) then config_get c WorkingDir else None)
       \<and> cc_user req = (if truthy_str (config_get c User) then config_get c User else None)
       \<and> cc_labels req =
           (if truthy_list (config_get c Labels) then config_get c Labels else None)"
    by (simp add: req container_config_of_def config_get_def cf)
  have m: "(mounts \<noteq> None) = truthy_list (host_get c Mounts)"
    using mo by (cases "make_mounts (the (host_get c Mounts))") (auto split: if_splits)
  show "cc_ports req =
           (if truthy_list (host_get c PortBindings) then host_get c PortBindings else None)
       \<and> (cc_volumes req \<noteq> None) = truthy_list (host_get c Binds)
       \<and> (cc_mounts req \<noteq> None) = truthy_list (host_get c Mounts)
       \<and> cc_network_mode req =
           (if truthy_str (host_get c NetworkMode) then host_get c NetworkMode else None)
       \<and> (cc_restart_policy req \<noteq> None) = truthy_policy (host_get c RestartPolicy)"
    using m by (simp add: req container_config_of_def Let_def)
  show "cc_privileged req =
           (if truthy_bool (host_get c Privileged) then host_get c Privileged else None)
       \<and> cc_cap_add req = (if truthy_list (host_get c CapAdd) then host_get c CapAdd else None)
       \<and> cc_cap_drop req =
           (if truthy_list (host_get c CapDrop) then host_get c CapDrop else None)
       \<and> cc_mem_limit req = (if truthy_int (host_get c Memory) then host_get c Memory else None)
       \<and> cc_nano_cpus req =
           (if truthy_int (host_get c NanoCpus) then host_get c NanoCpus else None)"
    by (simp add: req container_config_of_def)
qed

lemma recreate_build_fails:
  "build_container_config c = Inl e \<Longrightarrow>
   recreate_container api c s = (False, s\<lparr>trace := trace s @ [EvRecreate c]\<rparr>)"
  by (simp add: recreate_container_def)

lemma recreate_stop_fails:
  "build_container_config c = Inr req \<Longrightarrow> container_stop api (world s) c 30 = (Some e, w1) \<Longrightarrow>
   recreate_container api c s =
     (False, s\<lparr>world := w1, trace := trace s @ [EvRecreate c, EvStop c 30]\<rparr>)"
  by (simp add: recreate_container_def)

lemma recreate_remove_fails:
  "build_container_config c = Inr req \<Longrightarrow> container_stop api (world s) c 30 = (None, w1) \<Longrightarrow>
   container_remove api w1 c = (Some e, w2) \<Longrightarrow>
   recreate_container api c s =
     (False, s\<lparr>world := w2, trace := trace s @ [EvRecreate c, EvStop c 30, EvRemove c]\<rparr>)"
  by (simp add: recreate_container_def)

lemma recreate_run:
  "build_container_config c = Inr req \<Longrightarrow> container_stop api (world s) c 30 = (None, w1) \<Longrightarrow>
   container_remove api w1 c = (None, w2) \<Longrightarrow> containers_run api w2 req = (r, w3) \<Longrightarrow>
   recreate_container api c s =
     (r = None,
      s\<lparr>world := w3, trace := trace s @ [EvRecreate c, EvStop c 30, EvRemove c, EvRun req]\<rparr>)"
  by (cases r) (simp_all add: recreate_container_def)




section \<open>Events and progress of one container's processing\<close>

lemma pull_image_trace:
  "\<exists>a b. trace (snd (pull_image api n s)) = trace s @ [EvPull a b]"
  by (auto simp: pull_image_def split_beta Let_def split: option.splits)

lemma pull_image_flags:
  "self_update_available (snd (pull_image api n s)) = self_update_available s"
  "self_container_image (snd (pull_image api n s)) = self_container_image s"
  by (auto simp: pull_image_def split_beta Let_def split: option.splits)

lemma check_body_trace:
  "trace (snd (check_body api c s)) = trace s
   \<or> (\<exists>a b. trace (snd (check_body api c s)) = trace s @ [EvPull a b])"
proof (cases "get_image_name c")
  case None
  then show ?thesis by (simp add: check_body_def)
next
  case (Some n)
  obtain r s1 where p: "pull_image api n s = (r, s1)"
    by (cases "pull_image api n s")
  from pull_image_trace [of api n s] p obtain a b where t: "trace s1 = trace s @ [EvPull a b]"
    by auto
  show ?thesis
    using Some p t unfolding check_body_def
    by (auto split: sum.splits bool.splits prod.splits)
qed

lemma check_body_flags:
  "self_update_available (snd (check_body api c s)) = self_update_available s
   \<and> self_container_image (snd (check_body api c s)) = self_container_image s"
proof (cases "get_image_name c")
  case None
  then show ?thesis by (simp add: check_body_def)
next
  case (Some n)
  obtain r s1 where p: "pull_image api n s = (r, s1)"
    by (cases "pull_image api n s")
  from pull_image_flags [of api n s] p
  have "self_update_available s1 = self_update_available s"
    and "self_container_image s1 = self_container_image s" by simp_all
  then show ?thesis
    using Some p unfolding check_body_def
    by (auto split: sum.splits bool.splits prod.splits)
qed

lemma check_trace:
  "\<exists>mid. trace (snd (check_for_update_with_status api c s))
           = trace s @ EvCheck c # mid @ [EvChecked c (fst (check_for_update_with_status api c s))]
         \<and> (mid = [] \<or> (\<exists>a b. mid = [EvPull a b]))"
proof -
  let ?s = "s\<lparr>trace := trace s @ [EvCheck c]\<rparr>"
  obtain r s1 where b: "check_body api c ?s = (r, s1)"
    by (cases "check_body api c ?s")
  from check_body_trace [of api c ?s] b
  have "trace s1 = trace s @ [EvCheck c] \<or> (\<exists>a b. trace s1 = trace s @ [EvCheck c] @ [EvPull a b])"
    by simp
  then show ?thesis
    using b by (auto simp: check_for_update_with_status_def Let_def)
qed

lemma check_flags:
  "self_update_available (snd (check_for_update_with_status api c s)) = self_update_available s"
  "self_container_image (snd (check_for_update_with_status api c s)) = self_container_image s"
  using check_body_flags [of api c "s\<lparr>trace := trace s @ [EvCheck c]\<rparr>"]
  by (simp_all add: check_for_update_with_status_def Let_def split_beta)

lemma recreate_trace:
  "\<exists>more. trace (snd (recreate_container api c s)) = trace s @ EvRecreate c # more
      \<and> list_all (\<lambda>ev. ev = EvStop c 30 \<or> ev = EvRemove c \<or> (\<exists>q. ev = EvRun q)) more"
  unfolding recreate_container_def
  by (auto simp: Let_def split_beta split: sum.splits option.splits)

lemma recreate_flags:
  "self_update_available (snd (recreate_container api c s)) = self_update_available s"
  "self_container_image (snd (recreate_container api c s)) = self_container_image s"
  unfolding recreate_container_def
  by (auto simp: Let_def split_beta split: sum.splits option.splits)


lemma loop_progress_refl: "loop_progress self rs rs"
  unfolding loop_progress_def
  by (intro exI [of _ "[]"]) (simp add: count_updated_def)

lemma loop_progress_trans:
  assumes "loop_progress self a b" and "loop_progress self b c"
  shows "loop_progress self a c"
proof -
  from assms(1) obtain e1 r1 where
    1: "trace (snd b) = trace (snd a) @ e1" "list_all (loop_event self) e1"
       "container_reports (fst b) = container_reports (fst a) @ r1"
       "containers_updated (fst b) = containers_updated (fst a) + count_updated r1"
       "errors (fst b) = errors (fst a)"
       "self_update_available (snd a) \<longrightarrow> self_update_available (snd b)"
       "\<forall>c. is_self_container self c \<and> EvChecked c ''update_available'' \<in> set e1
               \<longrightarrow> self_update_available (snd b) \<and> pending_report c \<in> set r1"
    unfolding loop_progress_def by blast
  from assms(2) obtain e2 r2 where
    2: "trace (snd c) = trace (snd b) @ e2" "list_all (loop_event self) e2"
       "container_reports (fst c) = container_reports (fst b) @ r2"
       "containers_updated (fst c) = containers_updated (fst b) + count_updated r2"
       "errors (fst c) = errors (fst b)"
       "self_update_available (snd b) \<longrightarrow> self_update_available (snd c)"
       "\<forall>x. is_self_container self x \<and> EvChecked x ''update_available'' \<in> set e2
               \<longrightarrow> self_update_available (snd c) \<and> pending_report x \<in> set r2"
    unfolding loop_progress_def by blast
  have cu: "count_updated (r1 @ r2) = count_updated r1 + count_updated r2"
    by (simp add: count_updated_def)
  show ?thesis
    unfolding loop_progress_def
  proof (intro exI [of _ "e1 @ e2"] exI [of _ "r1 @ r2"] conjI allI impI)
    show "trace (snd c) = trace (snd a) @ e1 @ e2" using 1(1) 2(1) by simp
    show "list_all (loop_event self) (e1 @ e2)" using 1(2) 2(2) by simp
    show "container_reports (fst c) = container_reports (fst a) @ r1 @ r2"
      using 1(3) 2(3) by simp
    show "containers_updated (fst c) = containers_updated (fst a) + count_updated (r1 @ r2)"
      using 1(4) 2(4) cu by simp
    show "errors (fst c) = errors (fst a)" using 1(5) 2(5) by simp
    show "self_update_available (snd c)" if "self_update_available (snd a)"
      using that 1(6) 2(6) by simp
    show "self_update_available (snd c)"
      if "is_self_container self x \<and> EvChecked x ''update_available'' \<in> set (e1 @ e2)" for x
      using that 1(7) 2(6) 2(7) by auto
    show "pending_report x \<in> set (r1 @ r2)"
      if "is_self_container self x \<and> EvChecked x ''update_available'' \<in> set (e1 @ e2)" for x
      using that 1(7) 2(7) by auto
  qed
qed

lemma progressI:
  assumes "trace s' = trace s @ evs" "list_all (loop_event self) evs"
    "container_reports report' = container_reports report @ reps"
    "containers_updated report' = containers_updated report + count_updated reps"
    "errors report' = errors report"
    "self_update_available s \<longrightarrow> self_update_available s'"
    "\<And>c. is_self_container self c \<Longrightarrow> EvChecked c ''update_available'' \<in> set evs
        \<Longrightarrow> self_update_available s' \<and> pending_report c \<in> set reps"
  shows "loop_progress self (report, s) (report', s')"
  unfolding loop_progress_def using assms
  by (intro exI [of _ evs] exI [of _ reps]) auto

lemma process_self_progress:
  assumes self: "is_self_container self c"
  shows "loop_progress self (report, s) (process_container self api c (report, s))"
proof -
  obtain res s1 where chk: "check_for_update_with_status api c s = (res, s1)"
    by (cases "check_for_update_with_status api c s")
  from check_trace [of api c s] chk obtain mid where
    tr: "trace s1 = trace s @ EvCheck c # mid @ [EvChecked c res]"
    and mid: "mid = [] \<or> (\<exists>a b. mid = [EvPull a b])"
    by auto
  from check_flags [of api c s] chk have fl: "self_update_available s1 = self_update_available s"
    by simp
  let ?evs = "EvCheck c # mid @ [EvChecked c res]"
  have evs: "list_all (loop_event self) ?evs"
    using mid self by auto
  have only: "\<And>x. EvChecked x ''update_available'' \<in> set ?evs
      \<Longrightarrow> x = c \<and> res = ''update_available''"
    using mid by auto
  consider (ua) "res = ''update_available''" | (utd) "res = ''up_to_date''"
    | (sk) "res = ''skipped''"
    | (other) "res \<noteq> ''update_available''" "res \<noteq> ''up_to_date''" "res \<noteq> ''skipped''"
    by blast
  then show ?thesis
  proof cases
    case ua
    have pc: "process_container self api c (report, s) =
        (add_report (report\<lparr>containers_checked := containers_checked report + 1\<rparr>)
           c (image_name_or_unknown c) ''pending-restart'' ''self-update: restart required'',
         s1\<lparr>self_update_available := True,
            self_container_image := Some (image_name_or_unknown c)\<rparr>)"
      using self chk ua by (simp add: process_container_def Let_def)
    show ?thesis
      unfolding pc
      by (rule progressI [where evs = ?evs and reps = "[pending_report c]"])
         (use tr evs only in \<open>auto simp: add_report_def pending_report_def count_updated_def\<close>)
  next
    case utd
    have pc: "process_container self api c (report, s) =
        (add_report (report\<lparr>containers_checked := containers_checked report + 1\<rparr>)
           c (image_name_or_unknown c) ''up-to-date'' ''(self)'', s1)"
      using self chk utd by (simp add: process_container_def Let_def)
    show ?thesis
      unfolding pc
      by (rule progressI [where evs = ?evs
            and reps = "[\<lparr>cr_name = c_name c, cr_image = image_name_or_unknown c,
                         cr_status = ''up-to-date'', cr_message = ''(self)''\<rparr>]"])
         (use tr evs only fl utd in \<open>auto simp: add_report_def count_updated_def\<close>)
  next
    case sk
    have pc: "process_container self api c (report, s) =
        (add_report (report\<lparr>containers_skipped := containers_skipped report + 1\<rparr>)
           c (image_name_or_unknown c) ''skipped'' ''local-only image (self)'', s1)"
      using self chk sk by (simp add: process_container_def Let_def)
    show ?thesis
      unfolding pc
      by (rule progressI [where evs = ?evs
            and reps = "[\<lparr>cr_name = c_name c, cr_image = image_name_or_unknown c,
                         cr_status = ''skipped'', cr_message = ''local-only image (self)''\<rparr>]"])
         (use tr evs only fl sk in \<open>auto simp: add_report_def count_updated_def\<close>)
  next
    case other
    have pc: "process_container self api c (report, s) = (report, s1)"
      using self chk other by (simp add: process_container_def Let_def)
    show ?thesis
      unfolding pc
      by (rule progressI [where evs = ?evs and reps = "[]"])
         (use tr evs only fl other in \<open>auto simp: count_updated_def\<close>)
  qed
qed


lemma process_disabled:
  assumes "\<not> is_self_container self c" and "disabled_by_label c"
  shows "process_container self api c (report, s) =
     (report\<lparr>containers_checked := containers_checked report + 1,
             containers_skipped := containers_skipped report + 1,
             container_reports := container_reports report @
               [\<lparr>cr_name = c_name c, cr_image = image_name_or_unknown c,
                 cr_status = ''skipped'', cr_message = ''disabled by label''\<rparr>]\<rparr>, s)"
  using assms by (simp add: process_container_def Let_def add_report_def)

lemma process_ordinary_progress:
  assumes nself: "\<not> is_self_container self c"
  shows "loop_progress self (report, s) (process_container self api c (report, s))"
proof (cases "disabled_by_label c")
  case True
  show ?thesis
    unfolding process_disabled [OF nself True]
    by (rule progressI [where evs = "[]"
          and reps = "[\<lparr>cr_name = c_name c, cr_image = image_name_or_unknown c,
                       cr_status = ''skipped'', cr_message = ''disabled by label''\<rparr>]"])
       (simp_all add: count_updated_def)
next
  case False
  let ?r1 = "report\<lparr>containers_checked := containers_checked report + 1\<rparr>"
  let ?img = "image_name_or_unknown c"
  obtain res s1 where chk: "check_for_update_with_status api c s = (res, s1)"
    by (cases "check_for_update_with_status api c s")
  from check_trace [of api c s] chk obtain mid where
    tr: "trace s1 = trace s @ EvCheck c # mid @ [EvChecked c res]"
    and mid: "mid = [] \<or> (\<exists>a b. mid = [EvPull a b])"
    by auto
  from check_flags [of api c s] chk have fl: "self_update_available s1 = self_update_available s"
    by simp
  let ?evs = "EvCheck c # mid @ [EvChecked c res]"
  have evs: "list_all (loop_event self) ?evs"
    using mid False by auto
  have only: "\<And>x. EvChecked x ''update_available'' \<in> set ?evs \<Longrightarrow> x = c"
    using mid by auto
  consider (sk) "res = ''skipped''" | (ua) "res = ''update_available''"
    | (utd) "res = ''up_to_date''" | (err) "res = ''error''"
    | (other) "res \<noteq> ''update_available''" "res \<noteq> ''up_to_date''" "res \<noteq> ''skipped''"
        "res \<noteq> ''error''"
    by blast
  then show ?thesis
  proof cases
    case sk
    have pc: "process_container self api c (report, s) =
        (add_report (?r1\<lparr>containers_skipped := containers_skipped ?r1 + 1\<rparr>)
           c ?img ''skipped'' ''local-only image'', s1)"
      using nself False chk sk by (simp add: process_container_def Let_def)
    show ?thesis
      unfolding pc
      by (rule progressI [where evs = ?evs
            and reps = "[\<lparr>cr_name = c_name c, cr_image = ?img,
                         cr_status = ''skipped'', cr_message = ''local-only image''\<rparr>]"])
         (use tr evs only fl nself in \<open>auto simp: add_report_def count_updated_def\<close>)
  next
    case utd
    have pc: "process_container self api c (report, s) =
        (add_report ?r1 c ?img ''up-to-date'' [], s1)"
      using nself False chk utd by (simp add: process_container_def Let_def)
    show ?thesis
      unfolding pc
      by (rule progressI [where evs = ?evs
            and reps = "[\<lparr>cr_name = c_name c, cr_image = ?img,
                         cr_status = ''up-to-date'', cr_message = []\<rparr>]"])
         (use tr evs only fl nself in \<open>auto simp: add_report_def count_updated_def\<close>)
  next
    case err
    have pc: "process_container self api c (report, s) =
        (add_report (?r1\<lparr>containers_failed := containers_failed ?r1 + 1\<rparr>)
           c ?img ''error'' ''error checking for updates'', s1)"
      using nself False chk err by (simp add: process_container_def Let_def)
    show ?thesis
      unfolding pc
      by (rule progressI [where evs = ?evs
            and reps = "[\<lparr>cr_name = c_name c, cr_image = ?img,
                         cr_status = ''error'', cr_message = ''error checking for updates''\<rparr>]"])
         (use tr evs only fl nself in \<open>auto simp: add_report_def count_updated_def\<close>)
  next
    case other
    have pc: "process_container self api c (report, s) = (?r1, s1)"
      using nself False chk other by (simp add: process_container_def Let_def)
    show ?thesis
      unfolding pc
      by (rule progressI [where evs = ?evs and reps = "[]"])
         (use tr evs only fl nself in \<open>auto simp: count_updated_def\<close>)
  next
    case ua
    obtain ok s2 where rec: "recreate_container api c s1 = (ok, s2)"
      by (cases "recreate_container api c s1")
    from recreate_trace [of api c s1] rec obtain more where
      tr2: "trace s2 = trace s1 @ EvRecreate c # more"
      and more: "list_all (\<lambda>ev. ev = EvStop c 30 \<or> ev = EvRemove c \<or> (\<exists>q. ev = EvRun q)) more"
      by auto
    from recreate_flags [of api c s1] rec
    have fl2: "self_update_available s2 = self_update_available s1" by simp
    let ?evs2 = "?evs @ EvRecreate c # more"
    have more': "list_all (loop_event self) more"
      using more nself by (auto simp: list_all_iff)
    have evs2: "list_all (loop_event self) ?evs2"
      using evs more' nself by simp
    have only2: "\<And>x. EvChecked x ''update_available'' \<in> set ?evs2 \<Longrightarrow> x = c"
      using mid more by (auto simp: list_all_iff)
    have tr3: "trace s2 = trace s @ ?evs2"
      using tr tr2 by simp
    show ?thesis
    proof (cases ok)
      case True
      have pc: "process_container self api c (report, s) =
          (add_report (?r1\<lparr>containers_updated := containers_updated ?r1 + 1\<rparr>)
             c ?img ''updated'' ''successfully updated'', s2)"
        using nself False chk ua rec True by (simp add: process_container_def Let_def)
      show ?thesis
        unfolding pc
        by (rule progressI [where evs = ?evs2
              and reps = "[\<lparr>cr_name = c_name c, cr_image = ?img,
                           cr_status = ''updated'', cr_message = ''successfully updated''\<rparr>]"])
           (use tr3 evs2 only2 fl fl2 nself in \<open>auto simp: add_report_def count_updated_def\<close>)
    next
      case False
      have pc: "process_container self api c (report, s) =
          (add_report (?r1\<lparr>containers_failed := containers_failed ?r1 + 1\<rparr>)
             c ?img ''error'' ''failed to recreate container'', s2)"
        using nself \<open>\<not> disabled_by_label c\<close> chk ua rec False
        by (simp add: process_container_def Let_def)
      show ?thesis
        unfolding pc
        by (rule progressI [where evs = ?evs2
              and reps = "[\<lparr>cr_name = c_name c, cr_image = ?img,
                           cr_status = ''error'', cr_message = ''failed to recreate container''\<rparr>]"])
           (use tr3 evs2 only2 fl fl2 nself in \<open>auto simp: add_report_def count_updated_def\<close>)
    qed
  qed
qed

lemma process_container_progress:
  "loop_progress self rs (process_container self api c rs)"
  using process_self_progress [of self c "fst rs" "snd rs" api]
    process_ordinary_progress [of self c "fst rs" "snd rs" api]
  by (cases "is_self_container self c") simp_all

lemma process_containers_progress:
  "loop_progress self rs (process_containers self api cs rs)"
proof (induction cs arbitrary: rs)
  case Nil
  show ?case by (simp add: loop_progress_refl)
next
  case (Cons c cs)
  show ?case
    using loop_progress_trans [OF process_container_progress Cons.IH] by simp
qed

section \<open>Events of the phases of a cycle\<close>

lemma cleanup_trace:
  "trace (snd (cleanup_unused_images api s)) = trace s @ [EvPrune True]
   \<or> trace (snd (cleanup_unused_images api s)) = trace s @ [EvPrune True, EvPrune False]"
  unfolding cleanup_unused_images_def
  by (auto simp: Let_def split_beta split: sum.splits)

lemma cleanup_flags:
  "self_update_available (snd (cleanup_unused_images api s)) = self_update_available s"
  unfolding cleanup_unused_images_def
  by (auto simp: Let_def split_beta split: sum.splits)

lemma cleanup_raises:
  "fst (cleanup_unused_images api s) = Inl e \<Longrightarrow> \<not> is_APIError e"
  unfolding cleanup_unused_images_def
  by (auto simp: Let_def split_beta split: sum.splits if_splits)

lemma send_webhook_trace:
  "trace (snd (send_webhook self api r s)) = trace s @ [EvSendWebhook r]
   \<or> trace (snd (send_webhook self api r s))
       = trace s @ [EvSendWebhook r, EvPost (webhook_url self) (webhook_format self) r]"
  unfolding send_webhook_def
  by (auto simp: Let_def split_beta)

lemma send_webhook_flags:
  "self_update_available (snd (send_webhook self api r s)) = self_update_available s"
  unfolding send_webhook_def
  by (auto simp: Let_def split_beta)

lemma self_restart_trace:
  "trace (snd (perform_self_restart self api s)) = trace s @ [EvSelfRestart]
   \<or> (\<exists>c0. trace (snd (perform_self_restart self api s))
         = trace s @ [EvSelfRestart, EvSleep 1, EvStop c0 10])"
  unfolding perform_self_restart_def
  by (auto simp: Let_def split_beta split: sum.splits option.splits)

lemma self_restart_raises:
  "fst (perform_self_restart self api s) = Inl e \<Longrightarrow> \<not> is_APIError e"
  unfolding perform_self_restart_def
  by (auto simp: Let_def split_beta split: sum.splits option.splits if_splits)

lemma finish_cycle_events:
  "\<exists>deliver stop.
     trace (snd (finish_cycle self api t0 report s))
       = trace s @ EvSendWebhook (report\<lparr>duration_seconds := now api (world s) - t0\<rparr>)
                   # deliver @ stop
     \<and> (deliver = [] \<or> deliver = [EvPost (webhook_url self) (webhook_format self)
                                     (report\<lparr>duration_seconds := now api (world s) - t0\<rparr>)])
     \<and> (if self_update_available s
         then stop = [EvSelfRestart] \<or> (\<exists>c0. stop = [EvSelfRestart, EvSleep 1, EvStop c0 10])
         else stop = [] \<and> fst (finish_cycle self api t0 report s) = Inr ())
     \<and> (\<forall>e. fst (finish_cycle self api t0 report s) = Inl e \<longrightarrow> \<not> is_APIError e)"
proof -
  let ?r = "report\<lparr>duration_seconds := now api (world s) - t0\<rparr>"
  obtain ok s1 where sw: "send_webhook self api ?r s = (ok, s1)"
    by (cases "send_webhook self api ?r s")
  from send_webhook_trace [of self api ?r s] sw
  obtain deliver where d: "trace s1 = trace s @ EvSendWebhook ?r # deliver"
    and dd: "deliver = [] \<or> deliver = [EvPost (webhook_url self) (webhook_format self) ?r]"
    by auto
  from send_webhook_flags [of self api ?r s] sw
  have fl: "self_update_available s1 = self_update_available s" by simp
  show ?thesis
  proof (cases "self_update_available s")
    case False
    then have "finish_cycle self api t0 report s = (Inr (), s1)"
      using sw fl by (simp add: finish_cycle_def Let_def)
    then show ?thesis
      using d dd False by (intro exI [of _ deliver] exI [of _ "[]"]) simp
  next
    case True
    then have fc: "finish_cycle self api t0 report s = perform_self_restart self api s1"
      using sw fl by (simp add: finish_cycle_def Let_def)
    from self_restart_trace [of self api s1]
    obtain stop where st: "trace (snd (perform_self_restart self api s1)) = trace s1 @ stop"
      and ss: "stop = [EvSelfRestart] \<or> (\<exists>c0. stop = [EvSelfRestart, EvSleep 1, EvStop c0 10])"
      by auto
    show ?thesis
      using d dd True st ss fc self_restart_raises [of self api s1]
      by (intro exI [of _ deliver] exI [of _ stop]) auto
  qed
qed

section \<open>The shape of a cycle\<close>

lemma new_events_append [simp]:
  "trace s' = trace s @ evs \<Longrightarrow> new_events s s' = evs"
  by (simp add: new_events_def)

lemma cycle_body_list_raised:
  "containers_list api (world s) = Inl e \<Longrightarrow>
   cycle_body self api t0 report0 s = (Raised e, report0, s)"
  by (simp add: cycle_body_def)

lemma cycle_body_empty:
  "containers_list api (world s) = Inr [] \<Longrightarrow>
   cycle_body self api t0 report0 s =
     (Returned, report0\<lparr>duration_seconds := now api (world s) - t0\<rparr>,
      snd (send_webhook self api (report0\<lparr>duration_seconds := now api (world s) - t0\<rparr>) s))"
  by (simp add: cycle_body_def Let_def split_beta)

lemma cycle_body_nonempty:
  assumes "containers_list api (world s) = Inr cs" and "cs \<noteq> []"
    and "process_containers self api cs
           (report0, s\<lparr>self_update_available := False, self_container_image := None\<rparr>)
         = (report2, s2)"
    and "cleanup_unused_images api s2 = (res, s3)"
  shows "cycle_body self api t0 report0 s =
     (case res of
        Inl e \<Rightarrow> (Raised e, report2, s3)
      | Inr (cleaned, space_reclaimed) \<Rightarrow>
          (Completed,
           (if self_update_available s3
            then report2\<lparr>images_cleaned := cleaned, space_reclaimed_mb := space_reclaimed,
                         containers_updated := containers_updated report2 + 1\<rparr>
            else report2\<lparr>images_cleaned := cleaned, space_reclaimed_mb := space_reclaimed\<rparr>),
           s3))"
  using assms by (auto simp: cycle_body_def Let_def split: sum.splits)


lemma cycle_nonempty_shape:
  assumes ls: "containers_list api (world s) = Inr cs" and ne: "cs \<noteq> []"
  shows "\<exists>evs prunes r deliver stop fl.
      trace (snd (run_update_cycle self api s))
        = trace s @ evs @ prunes @ EvSendWebhook r # deliver @ stop
    \<and> list_all (loop_event self) evs
    \<and> (prunes = [EvPrune True] \<or> prunes = [EvPrune True, EvPrune False])
    \<and> (\<forall>c. is_self_container self c \<and> EvChecked c ''update_available'' \<in> set evs
          \<longrightarrow> fl \<and> pending_report c \<in> set (container_reports r))
    \<and> (errors r = [] \<longrightarrow>
          containers_updated r = count_updated (container_reports r) + (if fl then 1 else 0))
    \<and> (deliver = [] \<or> deliver = [EvPost (webhook_url self) (webhook_format self) r])
    \<and> (if fl then stop = [EvSelfRestart]
                   \<or> (\<exists>c0. stop = [EvSelfRestart, EvSleep 1, EvStop c0 10])
         else stop = [] \<and> fst (run_update_cycle self api s) = Inr ())
    \<and> (\<forall>e. fst (run_update_cycle self api s) = Inl e \<longrightarrow> \<not> is_APIError e)"
proof -
  let ?t0 = "now api (world s)"
  let ?r0 = "initial_report self api ?t0"
  let ?sr = "s\<lparr>self_update_available := False, self_container_image := None\<rparr>"
  obtain report2 s2 where pc: "process_containers self api cs (?r0, ?sr) = (report2, s2)"
    by (cases "process_containers self api cs (?r0, ?sr)")
  obtain res s3 where cl: "cleanup_unused_images api s2 = (res, s3)"
    by (cases "cleanup_unused_images api s2")
  from process_containers_progress [of self "(?r0, ?sr)" api cs] pc
  have "loop_progress self (?r0, ?sr) (report2, s2)" by simp
  then obtain evs reps where
    tr2: "trace s2 = trace s @ evs" and le: "list_all (loop_event self) evs"
    and reps: "container_reports report2 = reps"
    and upd: "containers_updated report2 = count_updated reps"
    and errs: "errors report2 = []"
    and flag: "\<forall>c. is_self_container self c \<and> EvChecked c ''update_available'' \<in> set evs
               \<longrightarrow> self_update_available s2 \<and> pending_report c \<in> set reps"
    unfolding loop_progress_def by (auto simp: initial_report_def)
  from cleanup_trace [of api s2] cl obtain prunes where
    tr3: "trace s3 = trace s2 @ prunes"
    and pr: "prunes = [EvPrune True] \<or> prunes = [EvPrune True, EvPrune False]"
    by auto
  from cleanup_flags [of api s2] cl
  have fl3: "self_update_available s3 = self_update_available s2" by simp
  have cb: "cycle_body self api ?t0 ?r0 s =
     (case res of
        Inl e \<Rightarrow> (Raised e, report2, s3)
      | Inr (cleaned, space_reclaimed) \<Rightarrow>
          (Completed,
           (if self_update_available s3
            then report2\<lparr>images_cleaned := cleaned, space_reclaimed_mb := space_reclaimed,
                         containers_updated := containers_updated report2 + 1\<rparr>
            else report2\<lparr>images_cleaned := cleaned, space_reclaimed_mb := space_reclaimed\<rparr>),
           s3))"
    by (rule cycle_body_nonempty [OF ls ne pc cl])
  define final where "final =
     (case res of
        Inl e \<Rightarrow> report2\<lparr>errors := errors report2 @ [cycle_error_msg e]\<rparr>
      | Inr (cleaned, space_reclaimed) \<Rightarrow>
          (if self_update_available s3
            then report2\<lparr>images_cleaned := cleaned, space_reclaimed_mb := space_reclaimed,
                         containers_updated := containers_updated report2 + 1\<rparr>
            else report2\<lparr>images_cleaned := cleaned, space_reclaimed_mb := space_reclaimed\<rparr>))"
  have run: "run_update_cycle self api s = finish_cycle self api ?t0 final s3"
    unfolding run_update_cycle_def final_def using cb
    by (auto simp: Let_def split: sum.splits)
  let ?r = "final\<lparr>duration_seconds := now api (world s3) - ?t0\<rparr>"
  from finish_cycle_events [of self api ?t0 final s3]
  obtain deliver stop where
    tr4: "trace (snd (finish_cycle self api ?t0 final s3))
            = trace s3 @ EvSendWebhook ?r # deliver @ stop"
    and dl: "deliver = [] \<or> deliver = [EvPost (webhook_url self) (webhook_format self) ?r]"
    and st: "if self_update_available s3
         then stop = [EvSelfRestart] \<or> (\<exists>c0. stop = [EvSelfRestart, EvSleep 1, EvStop c0 10])
         else stop = [] \<and> fst (finish_cycle self api ?t0 final s3) = Inr ()"
    and ex: "\<forall>e. fst (finish_cycle self api ?t0 final s3) = Inl e \<longrightarrow> \<not> is_APIError e"
    by blast
  have creps: "container_reports ?r = reps"
    using reps unfolding final_def by (auto split: sum.splits)
  have cnt: "errors ?r = [] \<longrightarrow>
      containers_updated ?r = count_updated (container_reports ?r)
        + (if self_update_available s3 then 1 else 0)"
    using reps upd errs unfolding final_def by (auto split: sum.splits)
  show ?thesis
  proof (rule exI [of _ evs], rule exI [of _ prunes], rule exI [of _ ?r],
      rule exI [of _ deliver], rule exI [of _ stop],
      rule exI [of _ "self_update_available s3"], intro conjI)
    show "trace (snd (run_update_cycle self api s))
        = trace s @ evs @ prunes @ EvSendWebhook ?r # deliver @ stop"
      using run tr4 tr3 tr2 by simp
    show "list_all (loop_event self) evs" by (rule le)
    show "prunes = [EvPrune True] \<or> prunes = [EvPrune True, EvPrune False]" by (rule pr)
    show "\<forall>c. is_self_container self c \<and> EvChecked c ''update_available'' \<in> set evs
          \<longrightarrow> self_update_available s3 \<and> pending_report c \<in> set (container_reports ?r)"
      using flag fl3 creps by simp
    show "errors ?r = [] \<longrightarrow>
      containers_updated ?r = count_updated (container_reports ?r)
        + (if self_update_available s3 then 1 else 0)" by (rule cnt)
    show "deliver = [] \<or> deliver = [EvPost (webhook_url self) (webhook_format self) ?r]"
      by (rule dl)
    show "if self_update_available s3
         then stop = [EvSelfRestart] \<or> (\<exists>c0. stop = [EvSelfRestart, EvSleep 1, EvStop c0 10])
         else stop = [] \<and> fst (run_update_cycle self api s) = Inr ()"
      using st run by simp
    show "\<forall>e. fst (run_update_cycle self api s) = Inl e \<longrightarrow> \<not> is_APIError e"
      using ex run by simp
  qed
qed


lemma cycle_list_raised:
  assumes "containers_list api (world s) = Inl e"
  shows "run_update_cycle self api s =
     finish_cycle self api (now api (world s))
       ((initial_report self api (now api (world s)))\<lparr>errors := [cycle_error_msg e]\<rparr>) s"
  using assms
  by (simp add: run_update_cycle_def cycle_body_list_raised Let_def initial_report_def)

lemma cycle_list_empty:
  assumes "containers_list api (world s) = Inr []"
  shows "run_update_cycle self api s =
     (Inr (), snd (send_webhook self api
        ((initial_report self api (now api (world s)))\<lparr>duration_seconds := 0\<rparr>) s))"
  using assms
  by (simp add: run_update_cycle_def cycle_body_empty Let_def)

lemma cycle_events_split:
  "\<exists>evs rest. trace (snd (run_update_cycle self api s)) = trace s @ evs @ rest
      \<and> list_all (loop_event self) evs \<and> list_all tail_event rest"
proof (cases "containers_list api (world s)")
  case (Inl e)
  let ?r = "(initial_report self api (now api (world s)))\<lparr>errors := [cycle_error_msg e]\<rparr>"
  let ?r' = "?r\<lparr>duration_seconds := now api (world s) - now api (world s)\<rparr>"
  from finish_cycle_events [of self api "now api (world s)" ?r s]
  obtain deliver stop where
    t: "trace (snd (finish_cycle self api (now api (world s)) ?r s))
       = trace s @ EvSendWebhook ?r' # deliver @ stop"
    and d: "deliver = [] \<or> deliver = [EvPost (webhook_url self) (webhook_format self) ?r']"
    and st: "if self_update_available s
         then stop = [EvSelfRestart] \<or> (\<exists>c0. stop = [EvSelfRestart, EvSleep 1, EvStop c0 10])
         else stop = [] \<and> fst (finish_cycle self api (now api (world s)) ?r s) = Inr ()"
    by blast
  have "list_all tail_event deliver" using d by auto
  moreover have "list_all tail_event stop" using st by (auto split: if_splits)
  ultimately have "list_all tail_event (EvSendWebhook ?r' # deliver @ stop)" by simp
  with t show ?thesis
    unfolding cycle_list_raised [OF Inl]
    by (intro exI [of _ "[]"] exI [of _ "EvSendWebhook ?r' # deliver @ stop"]) simp
next
  case (Inr cs)
  show ?thesis
  proof (cases "cs = []")
    case True
    let ?r = "(initial_report self api (now api (world s)))\<lparr>duration_seconds := 0\<rparr>"
    from send_webhook_trace [of self api ?r s]
    obtain rest where "trace (snd (send_webhook self api ?r s)) = trace s @ rest"
      "list_all tail_event rest"
      by auto
    then show ?thesis
      using Inr True cycle_list_empty [of api s self]
      by (intro exI [of _ "[]"] exI [of _ rest]) simp
  next
    case False
    from cycle_nonempty_shape [OF Inr False, of self]
    obtain evs prunes r deliver stop fl where
      t: "trace (snd (run_update_cycle self api s))
        = trace s @ evs @ prunes @ EvSendWebhook r # deliver @ stop"
      and le: "list_all (loop_event self) evs"
      and p: "prunes = [EvPrune True] \<or> prunes = [EvPrune True, EvPrune False]"
      and d: "deliver = [] \<or> deliver = [EvPost (webhook_url self) (webhook_format self) r]"
      and st: "if fl then stop = [EvSelfRestart]
                   \<or> (\<exists>c0. stop = [EvSelfRestart, EvSleep 1, EvStop c0 10])
         else stop = [] \<and> fst (run_update_cycle self api s) = Inr ()"
      by blast
    have "list_all tail_event prunes" using p by auto
    moreover have "list_all tail_event deliver" using d by auto
    moreover have "list_all tail_event stop" using st by (auto split: if_splits)
    ultimately have "list_all tail_event (prunes @ EvSendWebhook r # deliver @ stop)" by simp
    with t le show ?thesis
      by (intro exI [of _ evs] exI [of _ "prunes @ EvSendWebhook r # deliver @ stop"]) simp
  qed
qed

section \<open>The self-update path\<close>

text \<open>
  C2, as amended. In no cycle is the recreator called on a self container. In
  every cycle in which the check of a self container returns
  \<^verbatim>\<open>update_available\<close>: the report handed to the webhook sender holds the
  \<^verbatim>\<open>pending-restart\<close> entry of that container; if that report carries no
  cycle-level error, its counter of updated containers is the number of its
  \<^verbatim>\<open>updated\<close> entries plus one; and the self-restart comes after the call of the
  webhook sender, before which only loop events and prunings occur, and
  consists of at most a pause and one stop (grace period 10), with no creation
  of a container.
\<close>

theorem self_update_deferred:
  "(\<forall>x. is_self_container self x
        \<longrightarrow> EvRecreate x \<notin> set (new_events s (snd (run_update_cycle self api s))))
   \<and> (is_self_container self c
       \<and> EvChecked c ''update_available'' \<in> set (new_events s (snd (run_update_cycle self api s)))
      \<longrightarrow> (\<exists>pre r deliver stop.
             new_events s (snd (run_update_cycle self api s))
               = pre @ EvSendWebhook r # deliver @ EvSelfRestart # stop
           \<and> list_all (\<lambda>ev. loop_event self ev \<or> (\<exists>d. ev = EvPrune d)) pre
           \<and> pending_report c \<in> set (container_reports r)
           \<and> (errors r = [] \<longrightarrow>
                 containers_updated r = count_updated (container_reports r) + 1)
           \<and> (deliver = [] \<or> deliver = [EvPost (webhook_url self) (webhook_format self) r])
           \<and> (stop = [] \<or> (\<exists>c0. stop = [EvSleep 1, EvStop c0 10]))))"
proof (intro conjI allI impI)
  fix x
  assume x: "is_self_container self x"
  from cycle_events_split [of self api s] obtain evs rest where
    t: "trace (snd (run_update_cycle self api s)) = trace s @ evs @ rest"
    and le: "list_all (loop_event self) evs" and te: "list_all tail_event rest"
    by blast
  have "EvRecreate x \<notin> set evs" using le x by (auto simp: list_all_iff)
  moreover have "EvRecreate x \<notin> set rest" using te by (auto simp: list_all_iff)
  ultimately show "EvRecreate x \<notin> set (new_events s (snd (run_update_cycle self api s)))"
    using t by simp
next
  let ?E = "new_events s (snd (run_update_cycle self api s))"
  assume a: "is_self_container self c \<and> EvChecked c ''update_available'' \<in> set ?E"
  have ne: "\<exists>cs. containers_list api (world s) = Inr cs \<and> cs \<noteq> []"
  proof (rule ccontr)
    assume n: "\<not> ?thesis"
    have "\<exists>rest. trace (snd (run_update_cycle self api s)) = trace s @ rest
        \<and> list_all tail_event rest"
    proof (cases "containers_list api (world s)")
      case (Inl e)
      let ?r = "(initial_report self api (now api (world s)))\<lparr>errors := [cycle_error_msg e]\<rparr>"
      let ?r' = "?r\<lparr>duration_seconds := now api (world s) - now api (world s)\<rparr>"
      from finish_cycle_events [of self api "now api (world s)" ?r s]
      obtain deliver stop where
        t: "trace (snd (finish_cycle self api (now api (world s)) ?r s))
           = trace s @ EvSendWebhook ?r' # deliver @ stop"
        and d: "deliver = [] \<or> deliver = [EvPost (webhook_url self) (webhook_format self) ?r']"
        and st: "if self_update_available s
             then stop = [EvSelfRestart]
                  \<or> (\<exists>c0. stop = [EvSelfRestart, EvSleep 1, EvStop c0 10])
             else stop = [] \<and> fst (finish_cycle self api (now api (world s)) ?r s) = Inr ()"
        by blast
      have "list_all tail_event deliver" using d by auto
      moreover have "list_all tail_event stop" using st by (auto split: if_splits)
      ultimately have "list_all tail_event (EvSendWebhook ?r' # deliver @ stop)" by simp
      with t show ?thesis
        unfolding cycle_list_raised [OF Inl] by blast
    next
      case (Inr cs)
      with n have e: "containers_list api (world s) = Inr []" by simp
      let ?r = "(initial_report self api (now api (world s)))\<lparr>duration_seconds := 0\<rparr>"
      from send_webhook_trace [of self api ?r s]
      obtain rest where "trace (snd (send_webhook self api ?r s)) = trace s @ rest"
        "list_all tail_event rest"
        by auto
      then show ?thesis
        using cycle_list_empty [OF e, of self] by auto
    qed
    then obtain rest where "?E = rest" "list_all tail_event rest" by auto
    with a show False by (auto simp: list_all_iff)
  qed
  then obtain cs where ls: "containers_list api (world s) = Inr cs" and cs: "cs \<noteq> []"
    by blast
  from cycle_nonempty_shape [OF ls cs, of self]
  obtain evs prunes r deliver stop fl where
    t: "trace (snd (run_update_cycle self api s))
        = trace s @ evs @ prunes @ EvSendWebhook r # deliver @ stop"
    and le: "list_all (loop_event self) evs"
    and p: "prunes = [EvPrune True] \<or> prunes = [EvPrune True, EvPrune False]"
    and f: "\<forall>c. is_self_container self c \<and> EvChecked c ''update_available'' \<in> set evs
          \<longrightarrow> fl \<and> pending_report c \<in> set (container_reports r)"
    and cnt: "errors r = [] \<longrightarrow>
          containers_updated r = count_updated (container_reports r) + (if fl then 1 else 0)"
    and d: "deliver = [] \<or> deliver = [EvPost (webhook_url self) (webhook_format self) r]"
    and st: "if fl then stop = [EvSelfRestart]
                   \<or> (\<exists>c0. stop = [EvSelfRestart, EvSleep 1, EvStop c0 10])
         else stop = [] \<and> fst (run_update_cycle self api s) = Inr ()"
    by blast
  have E: "?E = evs @ prunes @ EvSendWebhook r # deliver @ stop"
    using t by simp
  have "EvChecked c ''update_available'' \<notin> set prunes" using p by auto
  moreover have "EvChecked c ''update_available'' \<notin> set deliver" using d by auto
  moreover have "EvChecked c ''update_available'' \<notin> set stop"
    using st by (auto split: if_splits)
  ultimately have "EvChecked c ''update_available'' \<in> set evs"
    using a E by auto
  with a f have fl: fl and pend: "pending_report c \<in> set (container_reports r)"
    by blast+
  from st fl obtain stop' where s': "stop = EvSelfRestart # stop'"
    and s'': "stop' = [] \<or> (\<exists>c0. stop' = [EvSleep 1, EvStop c0 10])"
    by auto
  have pre: "list_all (\<lambda>ev. loop_event self ev \<or> (\<exists>d. ev = EvPrune d)) (evs @ prunes)"
    using le p by (auto simp: list_all_iff)
  show "\<exists>pre r deliver stop.
             ?E = pre @ EvSendWebhook r # deliver @ EvSelfRestart # stop
           \<and> list_all (\<lambda>ev. loop_event self ev \<or> (\<exists>d. ev = EvPrune d)) pre
           \<and> pending_report c \<in> set (container_reports r)
           \<and> (errors r = [] \<longrightarrow>
                 containers_updated r = count_updated (container_reports r) + 1)
           \<and> (deliver = [] \<or> deliver = [EvPost (webhook_url self) (webhook_format self) r])
           \<and> (stop = [] \<or> (\<exists>c0. stop = [EvSleep 1, EvStop c0 10]))"
  proof (rule exI [of _ "evs @ prunes"], rule exI [of _ r], rule exI [of _ deliver],
      rule exI [of _ stop'], intro conjI)
    show "?E = (evs @ prunes) @ EvSendWebhook r # deliver @ EvSelfRestart # stop'"
      using E s' by simp
    show "list_all (\<lambda>ev. loop_event self ev \<or> (\<exists>d. ev = EvPrune d)) (evs @ prunes)"
      by (rule pre)
    show "pending_report c \<in> set (container_reports r)" by (rule pend)
    show "errors r = [] \<longrightarrow> containers_updated r = count_updated (container_reports r) + 1"
      using cnt fl by simp
    show "deliver = [] \<or> deliver = [EvPost (webhook_url self) (webhook_format self) r]"
      by (rule d)
    show "stop' = [] \<or> (\<exists>c0. stop' = [EvSleep 1, EvStop c0 10])" by (rule s'')
  qed
qed

theorem self_update_deferred_witness:
  "is_self_container demo_watcher watch_container
   \<and> EvChecked watch_container ''update_available''
       \<in> set (new_events demo_state
                (snd (run_update_cycle demo_watcher self_update_platform demo_state)))
   \<and> EvRecreate watch_container
       \<notin> set (new_events demo_state
                (snd (run_update_cycle demo_watcher self_update_platform demo_state)))
   \<and> (\<exists>pre r deliver stop.
         new_events demo_state (snd (run_update_cycle demo_watcher self_update_platform demo_state))
           = pre @ EvSendWebhook r # deliver @ EvSelfRestart # stop
         \<and> list_all (\<lambda>ev. loop_event demo_watcher ev \<or> (\<exists>d. ev = EvPrune d)) pre
         \<and> pending_report watch_container \<in> set (container_reports r)
         \<and> (errors r = [] \<longrightarrow> containers_updated r = count_updated (container_reports r) + 1)
         \<and> (deliver = []
             \<or> deliver = [EvPost (webhook_url demo_watcher) (webhook_format demo_watcher) r])
         \<and> (stop = [] \<or> (\<exists>c0. stop = [EvSleep 1, EvStop c0 10])))"
proof -
  have h1: "is_self_container demo_watcher watch_container"
    by code_simp
  have E: "new_events demo_state
      (snd (run_update_cycle demo_watcher self_update_platform demo_state))
    = [EvCheck watch_container, EvPull ''nginx'' ''latest'',
       EvChecked watch_container ''update_available'', EvPrune True, EvPrune False,
       EvSendWebhook pending_cycle_report,
       EvPost ''https://hooks.example.org/notify'' ''auto'' pending_cycle_report,
       EvSelfRestart, EvSleep 1, EvStop watch_container 10]"
    by code_simp
  have h2: "EvChecked watch_container ''update_available''
       \<in> set (new_events demo_state
                (snd (run_update_cycle demo_watcher self_update_platform demo_state)))"
    unfolding E by simp
  show ?thesis
    using h1 h2
      self_update_deferred [where self = demo_watcher and api = self_update_platform
        and s = demo_state and c = watch_container]
    by blast
qed

text \<open>
  C2 as stated fails: when the pruning of images ends with an exception that
  is not an API error, the \<^verbatim>\<open>try\<close> block is left before the counter of updated
  containers is incremented for the self-update. The check of the self container
  has returned \<^verbatim>\<open>update_available\<close>, the report is delivered with the counter at 0,
  and the self-restart is done all the same.
\<close>

theorem self_update_uncounted:
  "is_self_container demo_watcher watch_container
   \<and> new_events demo_state (snd (run_update_cycle demo_watcher prune_breaks demo_state))
     = [EvCheck watch_container, EvPull ''nginx'' ''latest'',
        EvChecked watch_container ''update_available'', EvPrune True,
        EvSendWebhook uncounted_report,
        EvPost ''https://hooks.example.org/notify'' ''auto'' uncounted_report,
        EvSelfRestart, EvSleep 1, EvStop watch_container 10]
   \<and> containers_updated uncounted_report = 0"
  by code_simp

section \<open>Cycle-level failures\<close>

lemma cycle_body_raised_cases:
  assumes "cycle_body self api t0 r0 s = (Raised e, report1, s1)"
  shows "(containers_list api (world s) = Inl e \<and> report1 = r0 \<and> s1 = s)
       \<or> (\<exists>cs s2. containers_list api (world s) = Inr cs \<and> cs \<noteq> []
             \<and> process_containers self api cs
                  (r0, s\<lparr>self_update_available := False, self_container_image := None\<rparr>)
                = (report1, s2)
             \<and> cleanup_unused_images api s2 = (Inl e, s1))"
proof (cases "containers_list api (world s)")
  case (Inl e')
  with assms show ?thesis by (simp add: cycle_body_list_raised)
next
  case (Inr cs)
  show ?thesis
  proof (cases "cs = []")
    case True
    with assms Inr show ?thesis by (simp add: cycle_body_empty)
  next
    case False
    let ?sr = "s\<lparr>self_update_available := False, self_container_image := None\<rparr>"
    obtain report2 s2 where pc: "process_containers self api cs (r0, ?sr) = (report2, s2)"
      by (cases "process_containers self api cs (r0, ?sr)")
    obtain res s3 where cl: "cleanup_unused_images api s2 = (res, s3)"
      by (cases "cleanup_unused_images api s2")
    from assms cycle_body_nonempty [OF Inr False pc cl, of t0]
    have "res = Inl e \<and> report1 = report2 \<and> s1 = s3"
      by (cases res) (auto split: if_splits)
    with Inr False pc cl show ?thesis by auto
  qed
qed

lemma initial_errors: "errors (initial_report self api t0) = []"
  by (simp add: initial_report_def)

lemma cycle_raised_errors:
  assumes "cycle_body self api t0 (initial_report self api t0) s = (Raised e, report1, s1)"
  shows "errors report1 = []"
proof -
  from cycle_body_raised_cases [OF assms]
  consider "report1 = initial_report self api t0"
    | cs s2 where "process_containers self api cs
         (initial_report self api t0,
          s\<lparr>self_update_available := False, self_container_image := None\<rparr>) = (report1, s2)"
    by blast
  then show ?thesis
  proof cases
    case 1
    then show ?thesis by (simp add: initial_errors)
  next
    case 2
    from process_containers_progress [of self _ api cs] 2
    have "loop_progress self (initial_report self api t0,
          s\<lparr>self_update_available := False, self_container_image := None\<rparr>) (report1, s2)"
      by metis
    then show ?thesis
      unfolding loop_progress_def by (auto simp: initial_errors)
  qed
qed

lemma cycle_raises_from_restart:
  assumes "fst (run_update_cycle self api s) = Inl e'"
  shows "\<not> is_APIError e'
    \<and> EvSelfRestart \<in> set (new_events s (snd (run_update_cycle self api s)))"
proof (cases "containers_list api (world s)")
  case (Inl e)
  let ?r = "(initial_report self api (now api (world s)))\<lparr>errors := [cycle_error_msg e]\<rparr>"
  let ?r' = "?r\<lparr>duration_seconds := now api (world s) - now api (world s)\<rparr>"
  from finish_cycle_events [of self api "now api (world s)" ?r s]
  obtain deliver stop where
    t: "trace (snd (finish_cycle self api (now api (world s)) ?r s))
       = trace s @ EvSendWebhook ?r' # deliver @ stop"
    and st: "if self_update_available s
         then stop = [EvSelfRestart] \<or> (\<exists>c0. stop = [EvSelfRestart, EvSleep 1, EvStop c0 10])
         else stop = [] \<and> fst (finish_cycle self api (now api (world s)) ?r s) = Inr ()"
    and ex: "\<forall>e. fst (finish_cycle self api (now api (world s)) ?r s) = Inl e
          \<longrightarrow> \<not> is_APIError e"
    by blast
  have run: "run_update_cycle self api s = finish_cycle self api (now api (world s)) ?r s"
    by (rule cycle_list_raised [OF Inl])
  have "EvSelfRestart \<in> set stop"
    using st assms run by (auto split: if_splits)
  then show ?thesis
    using assms ex t run by simp
next
  case (Inr cs)
  show ?thesis
  proof (cases "cs = []")
    case True
    with Inr assms show ?thesis by (simp add: cycle_list_empty)
  next
    case False
    from cycle_nonempty_shape [OF Inr False, of self]
    obtain evs prunes r deliver stop fl where
      t: "trace (snd (run_update_cycle self api s))
        = trace s @ evs @ prunes @ EvSendWebhook r # deliver @ stop"
      and st: "if fl then stop = [EvSelfRestart]
                   \<or> (\<exists>c0. stop = [EvSelfRestart, EvSleep 1, EvStop c0 10])
         else stop = [] \<and> fst (run_update_cycle self api s) = Inr ()"
      and ex: "\<forall>e. fst (run_update_cycle self api s) = Inl e \<longrightarrow> \<not> is_APIError e"
      by blast
    have "EvSelfRestart \<in> set stop"
      using st assms by (auto split: if_splits)
    then show ?thesis
      using assms ex t by simp
  qed
qed



section \<open>Reports and counters of one container\<close>



text \<open>
  C10. An ordinary container always increments \<^verbatim>\<open>containers_checked\<close>. A self
  container whose check returns \<^verbatim>\<open>skipped\<close> increments \<^verbatim>\<open>containers_skipped\<close> and
  leaves the other three counters. A self container whose check returns \<^verbatim>\<open>error\<close>
  leaves the whole report as it was.
\<close>

theorem counters_asymmetry:
  "(\<not> is_self_container self c \<longrightarrow>
      containers_checked (fst (process_container self api c (report, s)))
        = containers_checked report + 1)
   \<and> (is_self_container self c \<and> fst (check_for_update_with_status api c s) = ''skipped'' \<longrightarrow>
        containers_skipped (fst (process_container self api c (report, s)))
          = containers_skipped report + 1
      \<and> containers_checked (fst (process_container self api c (report, s)))
          = containers_checked report
      \<and> containers_updated (fst (process_container self api c (report, s)))
          = containers_updated report
      \<and> containers_failed (fst (process_container self api c (report, s)))
          = containers_failed report)
   \<and> (is_self_container self c \<and> fst (check_for_update_with_status api c s) = ''error'' \<longrightarrow>
        fst (process_container self api c (report, s)) = report)"
proof (intro conjI impI)
  assume n: "\<not> is_self_container self c"
  show "containers_checked (fst (process_container self api c (report, s)))
        = containers_checked report + 1"
  proof (cases "disabled_by_label c")
    case True
    then show ?thesis using n by (simp add: process_disabled)
  next
    case False
    obtain res s1 where chk: "check_for_update_with_status api c s = (res, s1)"
      by (cases "check_for_update_with_status api c s")
    obtain ok s2 where rec: "recreate_container api c s1 = (ok, s2)"
      by (cases "recreate_container api c s1")
    show ?thesis
      using n False chk rec
      by (simp add: process_container_def Let_def add_report_def)
  qed
next
  assume a: "is_self_container self c \<and> fst (check_for_update_with_status api c s) = ''skipped''"
  obtain s1 where chk: "check_for_update_with_status api c s = (''skipped'', s1)"
    using a by (cases "check_for_update_with_status api c s") simp
  have pc: "fst (process_container self api c (report, s)) =
      add_report (report\<lparr>containers_skipped := containers_skipped report + 1\<rparr>)
        c (image_name_or_unknown c) ''skipped'' ''local-only image (self)''"
    using a chk by (simp add: process_container_def Let_def)
  show "containers_skipped (fst (process_container self api c (report, s)))
          = containers_skipped report + 1"
    and "containers_checked (fst (process_container self api c (report, s)))
          = containers_checked report"
    and "containers_updated (fst (process_container self api c (report, s)))
          = containers_updated report"
    and "containers_failed (fst (process_container self api c (report, s)))
          = containers_failed report"
    unfolding pc by (simp_all add: add_report_def)
next
  assume a: "is_self_container self c \<and> fst (check_for_update_with_status api c s) = ''error''"
  obtain s1 where chk: "check_for_update_with_status api c s = (''error'', s1)"
    using a by (cases "check_for_update_with_status api c s") simp
  show "fst (process_container self api c (report, s)) = report"
    using a chk by (simp add: process_container_def Let_def)
qed

theorem counters_asymmetry_witness:
  "\<not> is_self_container demo_watcher (demo_container ''web'' ''nginx:latest'')
   \<and> containers_checked (fst (process_container demo_watcher demo_platform
         (demo_container ''web'' ''nginx:latest'')
         (initial_report demo_watcher demo_platform 0, demo_state))) = 1
   \<and> is_self_container demo_watcher (demo_container ''watch'' ''myapp:latest'')
   \<and> fst (check_for_update_with_status demo_platform
            (demo_container ''watch'' ''myapp:latest'') demo_state) = ''skipped''
   \<and> containers_skipped (fst (process_container demo_watcher demo_platform
         (demo_container ''watch'' ''myapp:latest'')
         (initial_report demo_watcher demo_platform 0, demo_state))) = 1
   \<and> containers_checked (fst (process_container demo_watcher demo_platform
         (demo_container ''watch'' ''myapp:latest'')
         (initial_report demo_watcher demo_platform 0, demo_state))) = 0
   \<and> is_self_container demo_watcher flaky_watch_container
   \<and> fst (check_for_update_with_status demo_platform flaky_watch_container demo_state) = ''error''
   \<and> fst (process_container demo_watcher demo_platform flaky_watch_container
         (initial_report demo_watcher demo_platform 0, demo_state))
      = initial_report demo_watcher demo_platform 0"
proof -
  let ?r0 = "initial_report demo_watcher demo_platform 0"
  have h1: "\<not> is_self_container demo_watcher (demo_container ''web'' ''nginx:latest'')"
    by code_simp
  have h2: "is_self_container demo_watcher (demo_container ''watch'' ''myapp:latest'')
    \<and> fst (check_for_update_with_status demo_platform
            (demo_container ''watch'' ''myapp:latest'') demo_state) = ''skipped''"
    by code_simp
  have h3: "is_self_container demo_watcher flaky_watch_container
    \<and> fst (check_for_update_with_status demo_platform flaky_watch_container demo_state)
       = ''error''"
    by code_simp
  have v: "containers_checked ?r0 = 0" "containers_skipped ?r0 = 0"
    by (simp_all add: initial_report_def)
  have c1: "containers_checked (fst (process_container demo_watcher demo_platform
         (demo_container ''web'' ''nginx:latest'') (?r0, demo_state))) = 1"
    using counters_asymmetry [where self = demo_watcher and api = demo_platform
        and c = "demo_container ''web'' ''nginx:latest''" and report = ?r0 and s = demo_state]
      h1 v
    by simp
  have c2: "containers_skipped (fst (process_container demo_watcher demo_platform
         (demo_container ''watch'' ''myapp:latest'') (?r0, demo_state))) = 1
    \<and> containers_checked (fst (process_container demo_watcher demo_platform
         (demo_container ''watch'' ''myapp:latest'') (?r0, demo_state))) = 0"
    using counters_asymmetry [where self = demo_watcher and api = demo_platform
        and c = "demo_container ''watch'' ''myapp:latest''" and report = ?r0 and s = demo_state]
      h2 v
    by simp
  have c3: "fst (process_container demo_watcher demo_platform flaky_watch_container
         (?r0, demo_state)) = ?r0"
    using counters_asymmetry [where self = demo_watcher and api = demo_platform
        and c = flaky_watch_container and report = ?r0 and s = demo_state] h3
    by blast
  show ?thesis using h1 h2 h3 c1 c2 c3 by blast
qed

text \<open>
  C3 fails on the code for a self container whose check returns \<^verbatim>\<open>error\<close>: the
  branch for self containers has no case for that outcome, so the cycle ends
  with a report that has no entry for the container and counts no failure,
  where the branch for ordinary containers records an \<^verbatim>\<open>error\<close> entry.
\<close>

theorem self_error_not_reported:
  "is_self_container demo_watcher flaky_watch_container
   \<and> new_events demo_state (snd (run_update_cycle demo_watcher self_error_platform demo_state))
     = [EvCheck flaky_watch_container, EvPull ''flaky/app'' ''1'',
        EvChecked flaky_watch_container ''error'', EvPrune True, EvPrune False,
        EvSendWebhook empty_cycle_report]
   \<and> container_reports empty_cycle_report = []
   \<and> containers_failed empty_cycle_report = 0"
  by code_simp

section \<open>Properties of the scheduler loop\<close>

lemma sleep_loop_stop: "\<not> (0 < w \<and> running api s) \<Longrightarrow> sleep_loop api w s = s"
  by (subst sleep_loop.simps) auto

lemma sleep_loop_go:
  "0 < w \<and> running api s \<Longrightarrow>
   sleep_loop api w s =
     sleep_loop api (w - min w 60)
       (s\<lparr>world := sleep api (world s) (min w 60), trace := trace s @ [EvSleep (min w 60)]\<rparr>)"
  by (subst sleep_loop.simps) simp

lemma sleep_loop_events:
  "\<exists>ds. trace (sleep_loop api w s) = trace s @ map EvSleep ds
      \<and> (\<forall>d\<in>set ds. 0 < d \<and> d \<le> 60)
      \<and> (\<not> running api s \<longrightarrow> ds = [])
      \<and> (running api (sleep_loop api w s) \<longrightarrow> sum_list ds = max w 0)"
proof (induction api w s rule: sleep_loop.induct)
  case (1 api w s)
  show ?case
  proof (cases "0 < w \<and> running api s")
    case False
    then have e: "sleep_loop api w s = s" by (rule sleep_loop_stop)
    show ?thesis
      unfolding e using False by (intro exI [of _ "[]"]) auto
  next
    case True
    let ?d = "min w 60"
    let ?s = "s\<lparr>world := sleep api (world s) ?d, trace := trace s @ [EvSleep ?d]\<rparr>"
    have eq: "sleep_loop api w s = sleep_loop api (w - ?d) ?s"
      using True by (rule sleep_loop_go)
    from "1.IH" [OF True] obtain ds where
      t: "trace (sleep_loop api (w - ?d) ?s) = trace ?s @ map EvSleep ds"
      and b: "\<forall>d\<in>set ds. 0 < d \<and> d \<le> 60"
      and r: "running api (sleep_loop api (w - ?d) ?s) \<longrightarrow> sum_list ds = max (w - ?d) 0"
      by blast
    have d: "0 < ?d \<and> ?d \<le> 60" using True by simp
    have m: "?d + max (w - ?d) 0 = max w 0" using True by (simp add: min_def max_def)
    show ?thesis
      unfolding eq
    proof (rule exI [of _ "?d # ds"], intro conjI)
      show "trace (sleep_loop api (w - ?d) ?s) = trace s @ map EvSleep (?d # ds)"
        using t by simp
      show "\<forall>d\<in>set (?d # ds). 0 < d \<and> d \<le> 60" using b d by simp
      show "\<not> running api s \<longrightarrow> ?d # ds = []" using True by simp
      show "running api (sleep_loop api (w - ?d) ?s) \<longrightarrow> sum_list (?d # ds) = max w 0"
        using r m by simp
    qed
  qed
qed

lemma wait_events:
  "\<exists>ds. trace (wait_for_next_run api cron next_run s)
           = trace s @ EvCronNext cron next_run # map EvSleep ds
      \<and> (\<forall>d\<in>set ds. 0 < d \<and> d \<le> 60)"
proof -
  let ?s0 = "s\<lparr>trace := trace s @ [EvCronNext cron next_run]\<rparr>"
  show ?thesis
  proof (cases "next_run - now api (world ?s0) > 0")
    case True
    from sleep_loop_events [of api "next_run - now api (world ?s0)" ?s0]
    obtain ds where
      "trace (sleep_loop api (next_run - now api (world ?s0)) ?s0) = trace ?s0 @ map EvSleep ds"
      "\<forall>d\<in>set ds. 0 < d \<and> d \<le> 60"
      by blast
    then show ?thesis
      using True by (intro exI [of _ ds]) (simp add: wait_for_next_run_def Let_def)
  next
    case False
    then show ?thesis
      by (intro exI [of _ "[]"]) (simp add: wait_for_next_run_def Let_def)
  qed
qed

lemma cycle_sleeps:
  "\<exists>E. trace (snd (run_update_cycle self api s)) = trace s @ E
      \<and> (\<forall>d. EvSleep d \<in> set E \<longrightarrow> d = 1)"
proof -
  from cycle_events_split [of self api s] obtain evs rest where
    t: "trace (snd (run_update_cycle self api s)) = trace s @ evs @ rest"
    and le: "list_all (loop_event self) evs" and te: "list_all tail_event rest"
    by blast
  have "\<forall>d. EvSleep d \<in> set (evs @ rest) \<longrightarrow> d = 1"
    using le te by (auto simp: list_all_iff)
  with t show ?thesis by blast
qed

lemma step_cron_raises:
  "croniter_next api sched cron = Inl e \<Longrightarrow>
   scheduler_step self api sched (cron, s) = (cron, backoff api s)"
  by (simp add: scheduler_step_def)

lemma step_stopped:
  "croniter_next api sched cron = Inr next_run \<Longrightarrow>
   \<not> running api (wait_for_next_run api cron next_run s) \<Longrightarrow>
   scheduler_step self api sched (cron, s) = (next_run, wait_for_next_run api cron next_run s)"
  by (simp add: scheduler_step_def Let_def)

lemma step_cycle_returns:
  "croniter_next api sched cron = Inr next_run \<Longrightarrow>
   running api (wait_for_next_run api cron next_run s) \<Longrightarrow>
   run_update_cycle self api (wait_for_next_run api cron next_run s) = (Inr u, s2) \<Longrightarrow>
   scheduler_step self api sched (cron, s) = (now api (world s2), s2)"
  by (simp add: scheduler_step_def Let_def)

lemma step_cycle_raises:
  "croniter_next api sched cron = Inr next_run \<Longrightarrow>
   running api (wait_for_next_run api cron next_run s) \<Longrightarrow>
   run_update_cycle self api (wait_for_next_run api cron next_run s) = (Inl e, s2) \<Longrightarrow>
   scheduler_step self api sched (cron, s) = (next_run, backoff api s2)"
  by (simp add: scheduler_step_def Let_def)

lemma step_sleeps:
  assumes "EvSleep d \<in> set (new_events s (snd (scheduler_step self api sched (cron, s))))"
  shows "0 < d \<and> d \<le> 60"
proof (cases "croniter_next api sched cron")
  case (Inl e)
  have st: "scheduler_step self api sched (cron, s) = (cron, backoff api s)"
    by (rule step_cron_raises [OF Inl])
  have "trace (backoff api s) = trace s @ [EvSleep 60]"
    by (simp add: backoff_def)
  then have "new_events s (backoff api s) = [EvSleep 60]"
    by (rule new_events_append)
  with assms st show ?thesis by simp
next
  case nr: (Inr next_run)
  let ?s1 = "wait_for_next_run api cron next_run s"
  from wait_events [of api cron next_run s] obtain ds where
    w: "trace ?s1 = trace s @ EvCronNext cron next_run # map EvSleep ds"
    and b: "\<forall>d\<in>set ds. 0 < d \<and> d \<le> 60"
    by blast
  show ?thesis
  proof (cases "running api ?s1")
    case False
    have st: "scheduler_step self api sched (cron, s) = (next_run, ?s1)"
      by (rule step_stopped [OF nr False])
    have "new_events s ?s1 = EvCronNext cron next_run # map EvSleep ds"
      using w by (rule new_events_append)
    with assms st have "d \<in> set ds" by auto
    with b show ?thesis by simp
  next
    case True
    obtain res s2 where c: "run_update_cycle self api ?s1 = (res, s2)"
      by (cases "run_update_cycle self api ?s1")
    from cycle_sleeps [of self api ?s1] obtain E where
      tE: "trace (snd (run_update_cycle self api ?s1)) = trace ?s1 @ E"
      and one: "\<forall>x. EvSleep x \<in> set E \<longrightarrow> x = 1"
      by blast
    from tE have "trace s2 = trace ?s1 @ E"
      unfolding c snd_conv .
    then have t2: "trace s2 = trace s @ (EvCronNext cron next_run # map EvSleep ds @ E)"
      unfolding w by simp
    show ?thesis
    proof (cases res)
      case (Inl e)
      have st: "scheduler_step self api sched (cron, s) = (next_run, backoff api s2)"
        using c Inl by (intro step_cycle_raises [OF nr True]) simp
      have "trace (backoff api s2)
          = trace s @ (EvCronNext cron next_run # map EvSleep ds @ E @ [EvSleep 60])"
        unfolding backoff_def using t2 by simp
      then have "new_events s (backoff api s2)
          = EvCronNext cron next_run # map EvSleep ds @ E @ [EvSleep 60]"
        by (rule new_events_append)
      with assms st have "d \<in> set ds \<or> EvSleep d \<in> set E \<or> d = 60" by auto
      with b one show ?thesis by auto
    next
      case (Inr u)
      have st: "scheduler_step self api sched (cron, s) = (now api (world s2), s2)"
        using c Inr by (intro step_cycle_returns [OF nr True]) simp
      have "new_events s s2 = EvCronNext cron next_run # map EvSleep ds @ E"
        using t2 by (rule new_events_append)
      with assms st have "d \<in> set ds \<or> EvSleep d \<in> set E" by auto
      with b one show ?thesis by auto
    qed
  qed
qed




end
